theory Spec2Isabelle
  imports Complex_Main "HOL-Library.Word" "HOL-Library.Log_Nat"
begin

unbundle bit_operations_syntax

section \<open>The TMP11x driver (7Semi\_TMP11x.h, 7Semi\_TMP11x.cpp)\<close>

text \<open>
  The driver is a C++ class \<^verbatim>\<open>TMP11x_7Semi\<close> holding a pointer to an Arduino \<^verbatim>\<open>TwoWire\<close>
  bus object and a 7-bit device address. Every public operation is a short sequence of
  16-bit register reads and writes over that bus. The model below follows the source
  function by function: machine integers are words of the source's width, \<^verbatim>\<open>float\<close> is
  IEEE binary32 with its rounding written out, the bus object lives in a store indexed by
  the pointer, and every bus transaction and every \<^verbatim>\<open>delay\<close> is appended to a trace.
\<close>

type_synonym u8 = "8 word"
type_synonym u16 = "16 word"
type_synonym u32 = "32 word"

text \<open>\<^verbatim>\<open>int16_t\<close>: the same sixteen bits as \<^verbatim>\<open>uint16_t\<close>, read through \<^term>\<open>sint\<close>. The casts
  \<^verbatim>\<open>(int16_t)raw\<close> and the implicit conversion back keep the bit pattern.\<close>

type_synonym i16 = "16 word"

subsection \<open>Register map\<close>

definition REG_TEMP :: u8 where "REG_TEMP = 0x00"
definition REG_CONFIG :: u8 where "REG_CONFIG = 0x01"
definition REG_T_HIGH :: u8 where "REG_T_HIGH = 0x02"
definition REG_T_LOW :: u8 where "REG_T_LOW = 0x03"
definition REG_EEPROM_UL :: u8 where "REG_EEPROM_UL = 0x04"
definition REG_EEPROM1 :: u8 where "REG_EEPROM1 = 0x05"
definition REG_EEPROM2 :: u8 where "REG_EEPROM2 = 0x06"
definition REG_TEMP_OFFSET :: u8 where "REG_TEMP_OFFSET = 0x07"
definition REG_EEPROM3 :: u8 where "REG_EEPROM3 = 0x08"
definition REG_DEVICE_ID :: u8 where "REG_DEVICE_ID = 0x0F"

subsection \<open>Configuration enumerations\<close>

datatype TMP11x_MODE = CONTINUOUS_0 | SHUTDOWN | CONTINUOUS_2 | ONE_SHOT

fun mode_val :: "TMP11x_MODE \<Rightarrow> u16" where
  "mode_val CONTINUOUS_0 = 0"
| "mode_val SHUTDOWN = 1"
| "mode_val CONTINUOUS_2 = 2"
| "mode_val ONE_SHOT = 3"

datatype TMP11x_AVG = AVG_NONE | AVG_8 | AVG_32 | AVG_64

fun avg_val :: "TMP11x_AVG \<Rightarrow> u16" where
  "avg_val AVG_NONE = 0"
| "avg_val AVG_8 = 1"
| "avg_val AVG_32 = 2"
| "avg_val AVG_64 = 3"

datatype TMP11x_CONV =
  CONV_15P5MS | CONV_125MS | CONV_250MS | CONV_500MS | CONV_1S | CONV_4S | CONV_8S | CONV_16S

fun conv_val :: "TMP11x_CONV \<Rightarrow> u16" where
  "conv_val CONV_15P5MS = 0"
| "conv_val CONV_125MS = 1"
| "conv_val CONV_250MS = 2"
| "conv_val CONV_500MS = 3"
| "conv_val CONV_1S = 4"
| "conv_val CONV_4S = 5"
| "conv_val CONV_8S = 6"
| "conv_val CONV_16S = 7"

datatype TMP11x_THERM_ALERT = ALERT_MODE | THERM_MODE

fun therm_val :: "TMP11x_THERM_ALERT \<Rightarrow> u16" where
  "therm_val ALERT_MODE = 0"
| "therm_val THERM_MODE = 1"

datatype TMP11x_ALERT_POLARITY = ALERT_ACTIVE_LOW | ALERT_ACTIVE_HIGH

fun polarity_val :: "TMP11x_ALERT_POLARITY \<Rightarrow> u16" where
  "polarity_val ALERT_ACTIVE_LOW = 0"
| "polarity_val ALERT_ACTIVE_HIGH = 1"

subsection \<open>Bit manipulation of the configuration word\<close>

text \<open>
  The source has no separate pack and unpack functions: each setter clears its field in
  the word just read and ORs the new value in, each getter shifts and masks. The
  definitions below are those expressions, one per accessor, on the integer value of
  the enumeration argument. C++ evaluates them in \<^verbatim>\<open>int\<close> and stores the result in a
  \<^verbatim>\<open>uint16_t\<close>; bitwise operations commute with that truncation, so sixteen bits suffice.
\<close>

definition setConversionRate_bits :: "u16 \<Rightarrow> u16 \<Rightarrow> u16" where
  \<comment> \<open>\<^verbatim>\<open>cfg &= ~(0x07 << 7); cfg |= ((conversionRate & 0x07) << 7);\<close>\<close>
  "setConversionRate_bits cfg conversionRate =
     (cfg AND NOT (push_bit 7 0x07)) OR push_bit 7 (conversionRate AND 0x07)"

definition getConversionRate_bits :: "u16 \<Rightarrow> u8" where
  \<comment> \<open>\<^verbatim>\<open>conversionRate = (cfg >> 7) & 0x07;\<close>\<close>
  "getConversionRate_bits cfg = ucast (drop_bit 7 cfg AND 0x07)"

definition setAveraging_bits :: "u16 \<Rightarrow> u16 \<Rightarrow> u16" where
  \<comment> \<open>\<^verbatim>\<open>cfg &= ~(0x03 << 5); cfg |= ((avg & 0x03) << 5);\<close>\<close>
  "setAveraging_bits cfg avg = (cfg AND NOT (push_bit 5 0x03)) OR push_bit 5 (avg AND 0x03)"

definition getAveraging_bits :: "u16 \<Rightarrow> u8" where
  \<comment> \<open>\<^verbatim>\<open>avg = (cfg >> 5) & 0x03;\<close>\<close>
  "getAveraging_bits cfg = ucast (drop_bit 5 cfg AND 0x03)"

definition setMode_bits :: "u16 \<Rightarrow> u16 \<Rightarrow> u16" where
  \<comment> \<open>\<^verbatim>\<open>cfg &= ~(0x03 << 10); cfg |= ((uint16_t)mode & 0x03) << 10;\<close>\<close>
  "setMode_bits cfg mode = (cfg AND NOT (push_bit 10 0x03)) OR push_bit 10 (mode AND 0x03)"

definition getMode_bits :: "u16 \<Rightarrow> u8" where
  \<comment> \<open>\<^verbatim>\<open>mode = (uint8_t)((cfg >> 10) & 0x03);\<close>\<close>
  "getMode_bits cfg = ucast (drop_bit 10 cfg AND 0x03)"

definition setAlertPolarity_bits :: "u16 \<Rightarrow> u16 \<Rightarrow> u16" where
  \<comment> \<open>\<^verbatim>\<open>if (active_high) config |= (1 << 3); else config &= ~(1 << 3);\<close>\<close>
  "setAlertPolarity_bits config active_high =
     (if active_high \<noteq> 0 then config OR push_bit 3 1 else config AND NOT (push_bit 3 1))"

definition getAlertPolarity_bits :: "u16 \<Rightarrow> u8" where
  \<comment> \<open>\<^verbatim>\<open>active_high = (config >> 3) & 0x01;\<close>\<close>
  "getAlertPolarity_bits config = ucast (drop_bit 3 config AND 0x01)"

definition setThermAlertMode_bits :: "u16 \<Rightarrow> u16 \<Rightarrow> u16" where
  \<comment> \<open>\<^verbatim>\<open>cfg &= ~(1 << 4); cfg |= ((mode & 0x01) << 4);\<close>\<close>
  "setThermAlertMode_bits cfg mode = (cfg AND NOT (push_bit 4 1)) OR push_bit 4 (mode AND 0x01)"

definition getThermAlertMode_bits :: "u16 \<Rightarrow> u8" where
  \<comment> \<open>\<^verbatim>\<open>mode = (cfg >> 4) & 0x01;\<close>\<close>
  "getThermAlertMode_bits cfg = ucast (drop_bit 4 cfg AND 0x01)"

text \<open>The five fields, with the position and width the header documents for each, and the
  setter and getter expression that belongs to each.\<close>

datatype cfg_field = MOD | CONV | AVG | TM | POL

fun field_lsb :: "cfg_field \<Rightarrow> nat" where
  "field_lsb MOD = 10"
| "field_lsb CONV = 7"
| "field_lsb AVG = 5"
| "field_lsb TM = 4"
| "field_lsb POL = 3"

fun field_width :: "cfg_field \<Rightarrow> nat" where
  "field_width MOD = 2"
| "field_width CONV = 3"
| "field_width AVG = 2"
| "field_width TM = 1"
| "field_width POL = 1"

definition in_span :: "cfg_field \<Rightarrow> nat \<Rightarrow> bool" where
  "in_span f n = (field_lsb f \<le> n \<and> n < field_lsb f + field_width f)"

fun set_bits :: "cfg_field \<Rightarrow> u16 \<Rightarrow> u16 \<Rightarrow> u16" where
  "set_bits MOD cfg v = setMode_bits cfg v"
| "set_bits CONV cfg v = setConversionRate_bits cfg v"
| "set_bits AVG cfg v = setAveraging_bits cfg v"
| "set_bits TM cfg v = setThermAlertMode_bits cfg v"
| "set_bits POL cfg v = setAlertPolarity_bits cfg v"

fun get_bits :: "cfg_field \<Rightarrow> u16 \<Rightarrow> u8" where
  "get_bits MOD cfg = getMode_bits cfg"
| "get_bits CONV cfg = getConversionRate_bits cfg"
| "get_bits AVG cfg = getAveraging_bits cfg"
| "get_bits TM cfg = getThermAlertMode_bits cfg"
| "get_bits POL cfg = getAlertPolarity_bits cfg"

subsection \<open>Single-precision arithmetic\<close>

text \<open>
  A finite \<^verbatim>\<open>float\<close> is the rational it denotes. Each operation computes the exact result
  and rounds it to binary32: 24 significant bits, least exponent \<open>-126\<close>, round to nearest,
  ties to even. \<open>ilog2 x\<close> is the exponent of the binade of a positive \<open>x\<close>, through the bit
  length of \<open>\<lfloor>x\<rfloor>\<close> when \<open>1 \<le> x\<close> and of \<open>\<lceil>1 / x\<rceil> - 1\<close> below. Infinities and NaN are not
  values of the model: the only place of the driver where a result can leave the finite
  range is the quotient inside \<open>celsiusToRaw\<close>, and there the conversion to \<^verbatim>\<open>int16_t\<close> is out
  of range with or without the overflow.
\<close>

type_synonym f32 = rat

definition ilog2 :: "rat \<Rightarrow> int" where
  "ilog2 x = (if 1 \<le> x then bitlen \<lfloor>x\<rfloor> - 1 else - bitlen (\<lceil>1 / x\<rceil> - 1))"

definition round_half_even :: "rat \<Rightarrow> int" where
  "round_half_even z =
     (let f = \<lfloor>z\<rfloor>; d = z - of_int f
      in if d < 1 / 2 then f else if 1 / 2 < d then f + 1 else if even f then f else f + 1)"

definition f32_ulp :: "rat \<Rightarrow> rat" where
  "f32_ulp x = 2 powi (max (ilog2 \<bar>x\<bar>) (- 126) - 23)"

definition f32_round :: "rat \<Rightarrow> f32" where
  "f32_round x = (if x = 0 then 0 else of_int (round_half_even (x / f32_ulp x)) * f32_ulp x)"

definition f32_of_int :: "int \<Rightarrow> f32" where
  "f32_of_int i = f32_round (of_int i)"

definition f32_mul :: "f32 \<Rightarrow> f32 \<Rightarrow> f32" where
  "f32_mul a b = f32_round (a * b)"

definition f32_div :: "f32 \<Rightarrow> f32 \<Rightarrow> f32" where
  "f32_div a b = f32_round (a / b)"

definition f32_add :: "f32 \<Rightarrow> f32 \<Rightarrow> f32" where
  "f32_add a b = f32_round (a + b)"

text \<open>The conversion of a \<^verbatim>\<open>float\<close> to an integer type discards the fractional part.\<close>

definition trunc_to_int :: "rat \<Rightarrow> int" where
  "trunc_to_int x = (if 0 \<le> x then \<lfloor>x\<rfloor> else \<lceil>x\<rceil>)"

subsection \<open>Temperature codec\<close>

definition rawToCelsius :: "i16 \<Rightarrow> f32" where
  \<comment> \<open>\<^verbatim>\<open>return raw * 0.0078125f;\<close>\<close>
  "rawToCelsius raw = f32_mul (f32_of_int (sint raw)) (f32_round 0.0078125)"

text \<open>\<^verbatim>\<open>return (int16_t)(temp / 0.0078125f);\<close> C++ leaves the conversion undefined when the
  truncated quotient is not an \<^verbatim>\<open>int16_t\<close>; the model returns \<open>None\<close> there.\<close>

definition celsiusToRaw :: "f32 \<Rightarrow> i16 option" where
  "celsiusToRaw temp =
     (let q = trunc_to_int (f32_div temp (f32_round 0.0078125))
      in if - 32768 \<le> q \<and> q \<le> 32767 then Some (word_of_int q) else None)"

subsection \<open>The bus\<close>

text \<open>
  The Arduino \<^verbatim>\<open>TwoWire\<close> class is not part of the repository. Its object is modelled with
  the buffers its interface documents; what the wires and the peripherals do is a parameter,
  the record \<open>transport\<close>, over a state \<open>'b\<close> of the physical side:
  \<open>t_send a bytes stop\<close> is what \<^verbatim>\<open>endTransmission(stop)\<close> does with the buffered bytes and
  returns its status (0 is success), \<open>t_recv a n\<close> is what \<^verbatim>\<open>requestFrom(a, n)\<close> does and
  returns the bytes that arrived. Every theorem about the driver holds for every transport.
\<close>

record 'b transport =
  t_send :: "u8 \<Rightarrow> u8 list \<Rightarrow> bool \<Rightarrow> 'b \<Rightarrow> u8 \<times> 'b"
  t_recv :: "u8 \<Rightarrow> u8 \<Rightarrow> 'b \<Rightarrow> u8 list \<times> 'b"

record 'b TwoWire =
  started :: bool
  pins :: "(u8 \<times> u8) option"
  clock :: u32
  txAddress :: u8
  txBuffer :: "u8 list"
  rxBuffer :: "u8 list"
  line :: 'b

text \<open>What the program did on a bus, in order: a transmission (port, address, bytes, stop
  flag, status), a request (port, address, quantity, bytes received), or a delay in
  milliseconds.\<close>

datatype event =
  Tx nat u8 "u8 list" bool u8
| Rx nat u8 u8 "u8 list"
| Delay nat

text \<open>The state: the two private members of the class (\<open>i2c\<close> is the pointer, an index
  into the store of bus objects), the store, and the trace.\<close>

record 'b sys =
  i2c :: nat
  address :: u8
  wires :: "nat \<Rightarrow> 'b TwoWire"
  trace :: "event list"

definition this_wire :: "'b sys \<Rightarrow> 'b TwoWire" where
  "this_wire s = wires s (i2c s)"

definition wire_upd :: "('b TwoWire \<Rightarrow> 'b TwoWire) \<Rightarrow> 'b sys \<Rightarrow> 'b sys" where
  "wire_upd f s = s\<lparr>wires := (wires s)(i2c s := f (wires s (i2c s)))\<rparr>"

definition i2c_begin :: "'b sys \<Rightarrow> 'b sys" where
  "i2c_begin s = wire_upd (\<lambda>w. w\<lparr>started := True\<rparr>) s"

definition i2c_begin_pins :: "u8 \<Rightarrow> u8 \<Rightarrow> 'b sys \<Rightarrow> 'b sys" where
  "i2c_begin_pins sda scl s = wire_upd (\<lambda>w. w\<lparr>started := True, pins := Some (sda, scl)\<rparr>) s"

definition i2c_setClock :: "u32 \<Rightarrow> 'b sys \<Rightarrow> 'b sys" where
  "i2c_setClock hz s = wire_upd (\<lambda>w. w\<lparr>clock := hz\<rparr>) s"

definition i2c_beginTransmission :: "u8 \<Rightarrow> 'b sys \<Rightarrow> 'b sys" where
  "i2c_beginTransmission a s = wire_upd (\<lambda>w. w\<lparr>txAddress := a, txBuffer := []\<rparr>) s"

definition i2c_write :: "u8 \<Rightarrow> 'b sys \<Rightarrow> 'b sys" where
  "i2c_write b s = wire_upd (\<lambda>w. w\<lparr>txBuffer := txBuffer w @ [b]\<rparr>) s"

definition i2c_endTransmission :: "'b transport \<Rightarrow> bool \<Rightarrow> 'b sys \<Rightarrow> u8 \<times> 'b sys" where
  "i2c_endTransmission T stop s =
     (let w = this_wire s;
          (st, l) = t_send T (txAddress w) (txBuffer w) stop (line w);
          s1 = wire_upd (\<lambda>w. w\<lparr>txBuffer := [], line := l\<rparr>) s
      in (st, s1\<lparr>trace := trace s1 @ [Tx (i2c s) (txAddress w) (txBuffer w) stop st]\<rparr>))"

definition i2c_requestFrom :: "'b transport \<Rightarrow> u8 \<Rightarrow> u8 \<Rightarrow> 'b sys \<Rightarrow> u8 \<times> 'b sys" where
  "i2c_requestFrom T a n s =
     (let w = this_wire s;
          (bs, l) = t_recv T a n (line w);
          got = take (unat n) bs;
          s1 = wire_upd (\<lambda>w. w\<lparr>rxBuffer := got, line := l\<rparr>) s
      in (of_nat (length got), s1\<lparr>trace := trace s1 @ [Rx (i2c s) a n got]\<rparr>))"

text \<open>\<^verbatim>\<open>read()\<close> returns an \<^verbatim>\<open>int\<close>: the next byte received, or \<open>-1\<close> when there is none.\<close>

definition i2c_read :: "'b sys \<Rightarrow> int \<times> 'b sys" where
  "i2c_read s =
     (case rxBuffer (this_wire s) of
        [] \<Rightarrow> (- 1, s)
      | b # bs \<Rightarrow> (uint b, wire_upd (\<lambda>w. w\<lparr>rxBuffer := bs\<rparr>) s))"

text \<open>The 16-bit value with high byte \<open>hi\<close> and low byte \<open>lo\<close>.\<close>

definition be16 :: "u8 \<Rightarrow> u8 \<Rightarrow> u16" where
  "be16 hi lo = push_bit 8 (ucast hi) OR ucast lo"

definition delay :: "nat \<Rightarrow> 'b sys \<Rightarrow> 'b sys" where
  "delay ms s = s\<lparr>trace := trace s @ [Delay ms]\<rparr>"

subsection \<open>Register access\<close>

text \<open>
  A C++ reference parameter is an argument holding the variable's content before the call
  and a component of the result holding it after. The status \<^verbatim>\<open>uint8_t\<close> is only ever
  \<^verbatim>\<open>true\<close> or \<^verbatim>\<open>false\<close> and is a \<open>bool\<close>. A local declared without an initialiser holds an
  indeterminate value; the driver passes each such local to a callee that either writes
  it or fails, and drops it in the second case, so the model starts it at the fixed value
  \<open>uninit16\<close> (\<open>uninit_f32\<close> for a \<^verbatim>\<open>float\<close>).
\<close>

definition uninit16 :: u16 where "uninit16 = 0"
definition uninit_f32 :: f32 where "uninit_f32 = 0"

text \<open>\<^verbatim>\<open>value = ((uint16_t)i2c->read() << 8) | i2c->read();\<close> The operands are taken left to
  right, as the compilers of the supported boards evaluate them.\<close>

definition readReg :: "'b transport \<Rightarrow> u8 \<Rightarrow> u16 \<Rightarrow> 'b sys \<Rightarrow> bool \<times> u16 \<times> 'b sys" where
  "readReg T reg value s =
     (let s1 = i2c_beginTransmission (address s) s;
          s2 = i2c_write reg s1;
          (st, s3) = i2c_endTransmission T False s2
      in if st \<noteq> 0 then (False, value, s3)
         else let (n, s4) = i2c_requestFrom T (address s3) 2 s3
              in if n \<noteq> 2 then (False, value, s4)
                 else let (r1, s5) = i2c_read s4;
                          (r2, s6) = i2c_read s5
                      in (True, push_bit 8 (word_of_int r1) OR word_of_int r2, s6))"

definition writeReg :: "'b transport \<Rightarrow> u8 \<Rightarrow> u16 \<Rightarrow> 'b sys \<Rightarrow> bool \<times> 'b sys" where
  "writeReg T reg value s =
     (let s1 = i2c_beginTransmission (address s) s;
          s2 = i2c_write reg s1;
          s3 = i2c_write (ucast (drop_bit 8 value)) s2;
          s4 = i2c_write (ucast (value AND 0xFF)) s3;
          (st, s5) = i2c_endTransmission T True s4
      in (st = 0, s5))"

subsection \<open>Initialisation and identity\<close>

definition getDeviceID :: "'b transport \<Rightarrow> u16 \<Rightarrow> 'b sys \<Rightarrow> bool \<times> u16 \<times> 'b sys" where
  "getDeviceID T deviceID s = readReg T REG_DEVICE_ID deviceID s"

text \<open>The constructor stores the pointer to the bus object and leaves \<open>address\<close> as it
  is until \<open>tmp_begin\<close> sets it.\<close>

definition TMP11x_7Semi :: "nat \<Rightarrow> 'b sys \<Rightarrow> 'b sys" where
  "TMP11x_7Semi wirePort s = s\<lparr>i2c := wirePort\<rparr>"

text \<open>\<open>esp\<close> says whether the build defines \<^verbatim>\<open>ESP32\<close> or \<^verbatim>\<open>ESP8266\<close>, the only boards on
  which the pin arguments are used.\<close>

text \<open>\<^verbatim>\<open>TMP11x_7Semi::begin\<close>; \<open>begin\<close> is a keyword of Isabelle, hence the prefix.\<close>

definition tmp_begin :: "'b transport \<Rightarrow> bool \<Rightarrow> u8 \<Rightarrow> u8 \<Rightarrow> u8 \<Rightarrow> u32 \<Rightarrow> 'b sys \<Rightarrow> bool \<times> 'b sys" where
  "tmp_begin T esp i2cAddress sda scl i2cClockSpeed s =
     (let s0 = s\<lparr>address := i2cAddress\<rparr>;
          s1 = (if esp then (if sda \<noteq> 0xFF \<and> scl \<noteq> 0xFF then i2c_begin_pins sda scl s0
                             else i2c_begin s0)
                else i2c_begin s0);
          s2 = i2c_setClock i2cClockSpeed s1;
          (ok, deviceID, s3) = getDeviceID T uninit16 s2
      in if \<not> ok then (False, s3)
         else if deviceID = 0x0117 \<or> deviceID = 0x1116 then (True, s3)
         else (False, s3))"

subsection \<open>Temperature\<close>

definition readRawTemperature :: "'b transport \<Rightarrow> i16 \<Rightarrow> 'b sys \<Rightarrow> bool \<times> i16 \<times> 'b sys" where
  "readRawTemperature T rawTemperature s =
     (let (ok, raw, s1) = readReg T REG_TEMP uninit16 s
      in if \<not> ok then (False, rawTemperature, s1) else (True, raw, s1))"

definition readTemperatureC :: "'b transport \<Rightarrow> f32 \<Rightarrow> 'b sys \<Rightarrow> bool \<times> f32 \<times> 'b sys" where
  "readTemperatureC T temperatureC s =
     (let (ok, raw, s1) = readRawTemperature T uninit16 s
      in if \<not> ok then (False, temperatureC, s1) else (True, rawToCelsius raw, s1))"

definition readTemperatureF :: "'b transport \<Rightarrow> f32 \<Rightarrow> 'b sys \<Rightarrow> bool \<times> f32 \<times> 'b sys" where
  \<comment> \<open>\<^verbatim>\<open>temperatureF = (tempC * 1.8f) + 32.0f;\<close>\<close>
  "readTemperatureF T temperatureF s =
     (let (ok, tempC, s1) = readTemperatureC T uninit_f32 s
      in if \<not> ok then (False, temperatureF, s1)
         else (True, f32_add (f32_mul tempC (f32_round 1.8)) (f32_round 32.0), s1))"

subsection \<open>Configuration\<close>

definition readConfig :: "'b transport \<Rightarrow> u16 \<Rightarrow> 'b sys \<Rightarrow> bool \<times> u16 \<times> 'b sys" where
  "readConfig T config s = readReg T REG_CONFIG config s"

definition writeConfig :: "'b transport \<Rightarrow> u16 \<Rightarrow> 'b sys \<Rightarrow> bool \<times> 'b sys" where
  "writeConfig T config s = writeReg T REG_CONFIG config s"

definition reset :: "'b transport \<Rightarrow> 'b sys \<Rightarrow> bool \<times> 'b sys" where
  "reset T s = writeConfig T 0x8000 s"

definition setConversionRate :: "'b transport \<Rightarrow> TMP11x_CONV \<Rightarrow> 'b sys \<Rightarrow> bool \<times> 'b sys" where
  "setConversionRate T conversionRate s =
     (let (ok, cfg, s1) = readConfig T uninit16 s
      in if \<not> ok then (False, s1)
         else writeConfig T (setConversionRate_bits cfg (conv_val conversionRate)) s1)"

definition getConversionRate :: "'b transport \<Rightarrow> u8 \<Rightarrow> 'b sys \<Rightarrow> bool \<times> u8 \<times> 'b sys" where
  "getConversionRate T conversionRate s =
     (let (ok, cfg, s1) = readConfig T uninit16 s
      in if \<not> ok then (False, conversionRate, s1)
         else (True, getConversionRate_bits cfg, s1))"

definition setAveraging :: "'b transport \<Rightarrow> TMP11x_AVG \<Rightarrow> 'b sys \<Rightarrow> bool \<times> 'b sys" where
  "setAveraging T avg s =
     (let (ok, cfg, s1) = readConfig T uninit16 s
      in if \<not> ok then (False, s1)
         else writeConfig T (setAveraging_bits cfg (avg_val avg)) s1)"

definition getAveraging :: "'b transport \<Rightarrow> u8 \<Rightarrow> 'b sys \<Rightarrow> bool \<times> u8 \<times> 'b sys" where
  "getAveraging T avg s =
     (let (ok, cfg, s1) = readConfig T uninit16 s
      in if \<not> ok then (False, avg, s1) else (True, getAveraging_bits cfg, s1))"

definition setMode :: "'b transport \<Rightarrow> TMP11x_MODE \<Rightarrow> 'b sys \<Rightarrow> bool \<times> 'b sys" where
  "setMode T mode s =
     (let (ok, cfg, s1) = readConfig T uninit16 s
      in if \<not> ok then (False, s1)
         else writeConfig T (setMode_bits cfg (mode_val mode)) s1)"

definition getMode :: "'b transport \<Rightarrow> u8 \<Rightarrow> 'b sys \<Rightarrow> bool \<times> u8 \<times> 'b sys" where
  "getMode T mode s =
     (let (ok, cfg, s1) = readConfig T uninit16 s
      in if \<not> ok then (False, mode, s1) else (True, getMode_bits cfg, s1))"

subsection \<open>Alert limits and offset\<close>

text \<open>
  The three setters pass the result of \<open>celsiusToRaw\<close> straight to \<open>writeReg\<close>, with no
  check of the range: a transmission follows for every temperature. Where the conversion
  is defined the value sent is the code. Where C++ leaves it undefined the build still
  yields sixteen bits and sends them; which ones depends on the compiler and the
  floating-point library, so the model takes them from a parameter \<open>oor\<close>. \<open>conv_wrap\<close> is
  the instance of builds that convert through a wider integer and keep its low sixteen
  bits.
\<close>

definition celsiusToRaw_built :: "(f32 \<Rightarrow> i16) \<Rightarrow> f32 \<Rightarrow> i16" where
  "celsiusToRaw_built oor temp = (case celsiusToRaw temp of Some raw \<Rightarrow> raw | None \<Rightarrow> oor temp)"

definition conv_wrap :: "f32 \<Rightarrow> i16" where
  "conv_wrap temp = word_of_int (trunc_to_int (f32_div temp (f32_round 0.0078125)))"

definition setHighLimit :: "'b transport \<Rightarrow> (f32 \<Rightarrow> i16) \<Rightarrow> f32 \<Rightarrow> 'b sys \<Rightarrow> bool \<times> 'b sys" where
  "setHighLimit T oor tempC s = writeReg T REG_T_HIGH (celsiusToRaw_built oor tempC) s"

definition setLowLimit :: "'b transport \<Rightarrow> (f32 \<Rightarrow> i16) \<Rightarrow> f32 \<Rightarrow> 'b sys \<Rightarrow> bool \<times> 'b sys" where
  "setLowLimit T oor tempC s = writeReg T REG_T_LOW (celsiusToRaw_built oor tempC) s"

definition getHighLimit :: "'b transport \<Rightarrow> f32 \<Rightarrow> 'b sys \<Rightarrow> bool \<times> f32 \<times> 'b sys" where
  "getHighLimit T tempC s =
     (let (ok, raw, s1) = readReg T REG_T_HIGH uninit16 s
      in if \<not> ok then (False, tempC, s1) else (True, rawToCelsius raw, s1))"

definition getLowLimit :: "'b transport \<Rightarrow> f32 \<Rightarrow> 'b sys \<Rightarrow> bool \<times> f32 \<times> 'b sys" where
  "getLowLimit T tempC s =
     (let (ok, raw, s1) = readReg T REG_T_LOW uninit16 s
      in if \<not> ok then (False, tempC, s1) else (True, rawToCelsius raw, s1))"

definition setOffset :: "'b transport \<Rightarrow> (f32 \<Rightarrow> i16) \<Rightarrow> f32 \<Rightarrow> 'b sys \<Rightarrow> bool \<times> 'b sys" where
  "setOffset T oor offsetC s = writeReg T REG_TEMP_OFFSET (celsiusToRaw_built oor offsetC) s"

definition getOffset :: "'b transport \<Rightarrow> f32 \<Rightarrow> 'b sys \<Rightarrow> bool \<times> f32 \<times> 'b sys" where
  "getOffset T offsetC s =
     (let (ok, raw, s1) = readReg T REG_TEMP_OFFSET uninit16 s
      in if \<not> ok then (False, offsetC, s1) else (True, rawToCelsius raw, s1))"

subsection \<open>Alert polarity and therm/alert selection\<close>

definition setAlertPolarity ::
  "'b transport \<Rightarrow> TMP11x_ALERT_POLARITY \<Rightarrow> 'b sys \<Rightarrow> bool \<times> 'b sys" where
  "setAlertPolarity T active_high s =
     (let (ok, config, s1) = readConfig T uninit16 s
      in if \<not> ok then (False, s1)
         else writeConfig T (setAlertPolarity_bits config (polarity_val active_high)) s1)"

definition getAlertPolarity :: "'b transport \<Rightarrow> u8 \<Rightarrow> 'b sys \<Rightarrow> bool \<times> u8 \<times> 'b sys" where
  "getAlertPolarity T active_high s =
     (let (ok, config, s1) = readConfig T uninit16 s
      in if \<not> ok then (False, active_high, s1)
         else (True, getAlertPolarity_bits config, s1))"

definition setThermAlertMode ::
  "'b transport \<Rightarrow> TMP11x_THERM_ALERT \<Rightarrow> 'b sys \<Rightarrow> bool \<times> 'b sys" where
  "setThermAlertMode T mode s =
     (let (ok, cfg, s1) = readConfig T uninit16 s
      in if \<not> ok then (False, s1)
         else writeConfig T (setThermAlertMode_bits cfg (therm_val mode)) s1)"

definition getThermAlertMode :: "'b transport \<Rightarrow> u8 \<Rightarrow> 'b sys \<Rightarrow> bool \<times> u8 \<times> 'b sys" where
  "getThermAlertMode T mode s =
     (let (ok, cfg, s1) = readConfig T uninit16 s
      in if \<not> ok then (False, mode, s1) else (True, getThermAlertMode_bits cfg, s1))"

subsection \<open>EEPROM\<close>

definition unlockEEPROM :: "'b transport \<Rightarrow> 'b sys \<Rightarrow> bool \<times> 'b sys" where
  "unlockEEPROM T s =
     (let ul = 0x8000;
          (ok, s1) = writeReg T REG_EEPROM_UL ul s
      in if \<not> ok then (False, s1) else (True, delay 2 s1))"

definition lockEEPROM :: "'b transport \<Rightarrow> 'b sys \<Rightarrow> bool \<times> 'b sys" where
  "lockEEPROM T s =
     (let ul = 0x0000;
          (ok, s1) = writeReg T REG_EEPROM_UL ul s
      in if \<not> ok then (False, s1) else (True, delay 2 s1))"

definition readEEPROM :: "'b transport \<Rightarrow> u8 \<Rightarrow> u16 \<Rightarrow> 'b sys \<Rightarrow> bool \<times> u16 \<times> 'b sys" where
  "readEEPROM T reg value s =
     (if reg \<noteq> REG_EEPROM1 \<and> reg \<noteq> REG_EEPROM2 \<and> reg \<noteq> REG_EEPROM3 then (False, value, s)
      else readReg T reg value s)"

text \<open>The status of \<open>lockEEPROM\<close> is discarded: the call is a statement of its own, followed
  by \<^verbatim>\<open>return true;\<close>.\<close>

definition writeEEPROM :: "'b transport \<Rightarrow> u8 \<Rightarrow> u16 \<Rightarrow> 'b sys \<Rightarrow> bool \<times> 'b sys" where
  "writeEEPROM T reg value s =
     (if reg \<noteq> REG_EEPROM1 \<and> reg \<noteq> REG_EEPROM2 \<and> reg \<noteq> REG_EEPROM3 then (False, s)
      else let (ok, s1) = unlockEEPROM T s
           in if \<not> ok then (False, s1)
              else let (ok, s2) = writeReg T reg value s1
                   in if \<not> ok then (False, s2)
                      else let s3 = delay 10 s2;
                               (locked, s4) = lockEEPROM T s3
                           in (True, s4))"

subsection \<open>Sequences of calls\<close>

text \<open>Every public operation other than \<open>tmp_begin\<close>, with its arguments, and the state it
  leaves. The content of an output variable before the call is immaterial to the state
  after it, so \<open>exec\<close> starts each of them at the fixed value. \<open>oor\<close> is the parameter of
  the three temperature setters.\<close>

datatype op =
  ReadRawTemperature | ReadTemperatureC | ReadTemperatureF
| ReadConfig | WriteConfig u16 | Reset
| SetConversionRate TMP11x_CONV | GetConversionRate
| SetAveraging TMP11x_AVG | GetAveraging
| SetMode TMP11x_MODE | GetMode
| SetHighLimit f32 | SetLowLimit f32 | GetHighLimit | GetLowLimit
| SetOffset f32 | GetOffset
| SetThermAlertMode TMP11x_THERM_ALERT | GetThermAlertMode
| SetAlertPolarity TMP11x_ALERT_POLARITY | GetAlertPolarity
| ReadEEPROM u8 | WriteEEPROM u8 u16
| GetDeviceID

fun exec :: "'b transport \<Rightarrow> (f32 \<Rightarrow> i16) \<Rightarrow> op \<Rightarrow> 'b sys \<Rightarrow> 'b sys" where
  "exec T oor ReadRawTemperature s = snd (snd (readRawTemperature T uninit16 s))"
| "exec T oor ReadTemperatureC s = snd (snd (readTemperatureC T uninit_f32 s))"
| "exec T oor ReadTemperatureF s = snd (snd (readTemperatureF T uninit_f32 s))"
| "exec T oor ReadConfig s = snd (snd (readConfig T uninit16 s))"
| "exec T oor (WriteConfig config) s = snd (writeConfig T config s)"
| "exec T oor Reset s = snd (reset T s)"
| "exec T oor (SetConversionRate c) s = snd (setConversionRate T c s)"
| "exec T oor GetConversionRate s = snd (snd (getConversionRate T 0 s))"
| "exec T oor (SetAveraging a) s = snd (setAveraging T a s)"
| "exec T oor GetAveraging s = snd (snd (getAveraging T 0 s))"
| "exec T oor (SetMode m) s = snd (setMode T m s)"
| "exec T oor GetMode s = snd (snd (getMode T 0 s))"
| "exec T oor (SetHighLimit t) s = snd (setHighLimit T oor t s)"
| "exec T oor (SetLowLimit t) s = snd (setLowLimit T oor t s)"
| "exec T oor GetHighLimit s = snd (snd (getHighLimit T uninit_f32 s))"
| "exec T oor GetLowLimit s = snd (snd (getLowLimit T uninit_f32 s))"
| "exec T oor (SetOffset t) s = snd (setOffset T oor t s)"
| "exec T oor GetOffset s = snd (snd (getOffset T uninit_f32 s))"
| "exec T oor (SetThermAlertMode m) s = snd (setThermAlertMode T m s)"
| "exec T oor GetThermAlertMode s = snd (snd (getThermAlertMode T 0 s))"
| "exec T oor (SetAlertPolarity p) s = snd (setAlertPolarity T p s)"
| "exec T oor GetAlertPolarity s = snd (snd (getAlertPolarity T 0 s))"
| "exec T oor (ReadEEPROM reg) s = snd (snd (readEEPROM T reg uninit16 s))"
| "exec T oor (WriteEEPROM reg v) s = snd (writeEEPROM T reg v s)"
| "exec T oor GetDeviceID s = snd (snd (getDeviceID T uninit16 s))"

definition exec_all :: "'b transport \<Rightarrow> (f32 \<Rightarrow> i16) \<Rightarrow> op list \<Rightarrow> 'b sys \<Rightarrow> 'b sys" where
  "exec_all T oor ops s = foldl (\<lambda>s x. exec T oor x s) s ops"

text \<open>The five field setters as one family, with the field each one targets and the
  integer value of its argument.\<close>

datatype setter_call =
  Mode TMP11x_MODE
| Averaging TMP11x_AVG
| ConversionRate TMP11x_CONV
| AlertPolarity TMP11x_ALERT_POLARITY
| ThermAlertMode TMP11x_THERM_ALERT

fun call_setter :: "'b transport \<Rightarrow> setter_call \<Rightarrow> 'b sys \<Rightarrow> bool \<times> 'b sys" where
  "call_setter T (Mode m) s = setMode T m s"
| "call_setter T (Averaging a) s = setAveraging T a s"
| "call_setter T (ConversionRate c) s = setConversionRate T c s"
| "call_setter T (AlertPolarity p) s = setAlertPolarity T p s"
| "call_setter T (ThermAlertMode m) s = setThermAlertMode T m s"

fun setter_field :: "setter_call \<Rightarrow> cfg_field" where
  "setter_field (Mode m) = MOD"
| "setter_field (Averaging a) = AVG"
| "setter_field (ConversionRate c) = CONV"
| "setter_field (AlertPolarity p) = POL"
| "setter_field (ThermAlertMode m) = TM"

fun setter_value :: "setter_call \<Rightarrow> u16" where
  "setter_value (Mode m) = mode_val m"
| "setter_value (Averaging a) = avg_val a"
| "setter_value (ConversionRate c) = conv_val c"
| "setter_value (AlertPolarity p) = polarity_val p"
| "setter_value (ThermAlertMode m) = therm_val m"

text \<open>A transmission that ends with a stop condition is a register write; one that keeps
  the bus is the address phase of a register read.\<close>

fun is_write :: "event \<Rightarrow> bool" where
  "is_write (Tx p a bytes stop st) = stop"
| "is_write (Rx p a n bytes) = False"
| "is_write (Delay ms) = False"

fun is_read_start :: "event \<Rightarrow> bool" where
  "is_read_start (Tx p a bytes stop st) = (\<not> stop)"
| "is_read_start (Rx p a n bytes) = False"
| "is_read_start (Delay ms) = False"

definition one_read_one_write :: "event list \<Rightarrow> bool" where
  "one_read_one_write evs =
     (length (filter is_read_start evs) = 1 \<and> length (filter is_write evs) = 1)"

text \<open>An event is on the bus of port \<open>p\<close> at address \<open>a\<close>; a delay touches no bus.\<close>

fun addressed :: "nat \<Rightarrow> u8 \<Rightarrow> event \<Rightarrow> bool" where
  "addressed p a (Tx q b bytes stop st) = (q = p \<and> b = a)"
| "addressed p a (Rx q b n bytes) = (q = p \<and> b = a)"
| "addressed p a (Delay ms) = True"

text \<open>The events a call added to the trace.\<close>

definition new_events :: "'b sys \<Rightarrow> 'b sys \<Rightarrow> event list" where
  "new_events s s' = drop (length (trace s)) (trace s')"

text \<open>\<open>bound_step s s'\<close>: from \<open>s\<close> to \<open>s'\<close> the two members of the driver object and every
  other bus object are as they were, the trace has only grown, and what was added is on
  the bus and at the address the members name.\<close>

definition bound_step :: "'b sys \<Rightarrow> 'b sys \<Rightarrow> bool" where
  "bound_step s s' =
     (i2c s' = i2c s \<and> address s' = address s \<and> (\<forall>p. p \<noteq> i2c s \<longrightarrow> wires s' p = wires s p) \<and>
      take (length (trace s)) (trace s') = trace s \<and>
      list_all (addressed (i2c s) (address s)) (new_events s s'))"

text \<open>\<open>out_kept f out s\<close>: when the call \<open>f\<close> on the output variable holding \<open>out\<close> reports
  failure, the variable still holds \<open>out\<close>.\<close>

definition out_kept :: "('a \<Rightarrow> 'b sys \<Rightarrow> bool \<times> 'a \<times> 'b sys) \<Rightarrow> 'a \<Rightarrow> 'b sys \<Rightarrow> bool" where
  "out_kept f out s = (\<not> fst (f out s) \<longrightarrow> fst (snd (f out s)) = out)"

subsection \<open>A simulated peripheral\<close>

text \<open>
  A transport to run the driver on: one peripheral at \<open>dev_addr\<close> with a file of 16-bit
  registers and a pointer register, which stores what is written and returns what is
  stored, high byte first. \<open>tx_faults\<close> schedules failures: each transmission takes the
  next status from the list, and a status other than 0 makes that transmission fail with
  it and leaves the registers alone. With an empty schedule the transport is faithful.
\<close>

record sim_dev =
  dev_addr :: u8
  regs :: "u8 \<Rightarrow> u16"
  pointer :: u8
  tx_faults :: "u8 list"

definition sim_send :: "u8 \<Rightarrow> u8 list \<Rightarrow> bool \<Rightarrow> sim_dev \<Rightarrow> u8 \<times> sim_dev" where
  "sim_send a bytes stop d =
     (let (f, d1) = (case tx_faults d of [] \<Rightarrow> (0, d) | f # fs \<Rightarrow> (f, d\<lparr>tx_faults := fs\<rparr>))
      in if f \<noteq> 0 then (f, d1)
         else if a \<noteq> dev_addr d1 then (2, d1)
         else (case bytes of
                 [] \<Rightarrow> (0, d1)
               | r # hi # lo # rest \<Rightarrow>
                   (0, d1\<lparr>pointer := r, regs := (regs d1)(r := be16 hi lo)\<rparr>)
               | r # rest \<Rightarrow> (0, d1\<lparr>pointer := r\<rparr>)))"

definition sim_recv :: "u8 \<Rightarrow> u8 \<Rightarrow> sim_dev \<Rightarrow> u8 list \<times> sim_dev" where
  "sim_recv a n d =
     (if a \<noteq> dev_addr d then ([], d)
      else (let v = regs d (pointer d)
            in (take (unat n) [ucast (drop_bit 8 v), ucast v], d)))"

definition sim :: "sim_dev transport" where
  "sim = \<lparr>t_send = sim_send, t_recv = sim_recv\<rparr>"

text \<open>A TMP117 at 0x48 on port 0 with its identity in register 0x0F, configuration 0x0220
  and a temperature of 25 degrees Celsius, and a driver object bound to port 0 whose \<open>address\<close> member
  is still whatever the constructor left (here 0).\<close>

definition tmp117_regs :: "u8 \<Rightarrow> u16" where
  "tmp117_regs r = (if r = 0x0F then 0x0117 else if r = 0x01 then 0x0220
                    else if r = 0x00 then 0x0C80 else 0)"

definition sim_dev0 :: "u8 list \<Rightarrow> sim_dev" where
  "sim_dev0 faults = \<lparr>dev_addr = 0x48, regs = tmp117_regs, pointer = 0, tx_faults = faults\<rparr>"

definition wire0 :: "u8 list \<Rightarrow> sim_dev TwoWire" where
  "wire0 faults = \<lparr>started = False, pins = None, clock = 100000, txAddress = 0,
     txBuffer = [], rxBuffer = [], line = sim_dev0 faults\<rparr>"

definition sys0 :: "u8 list \<Rightarrow> sim_dev sys" where
  "sys0 faults = \<lparr>i2c = 0, address = 0, wires = (\<lambda>p. wire0 faults), trace = []\<rparr>"

text \<open>The same after a successful \<open>begin(0x48)\<close>, with an empty trace.\<close>

definition ready0 :: "u8 list \<Rightarrow> sim_dev sys" where
  "ready0 faults = (sys0 faults)\<lparr>address := 0x48\<rparr>"

section \<open>Configuration fields\<close>

lemma mask2_u16: "(3::u16) = mask 2" by (simp add: mask_eq_exp_minus_1)
lemma mask3_u16: "(7::u16) = mask 3" by (simp add: mask_eq_exp_minus_1)

lemma bit_8_int: "bit (8::int) n \<longleftrightarrow> n = 3"
  using bit_exp_iff [where ?'a = int, of 3 n] by simp

lemma bit_16_int: "bit (16::int) n \<longleftrightarrow> n = 4"
  using bit_exp_iff [where ?'a = int, of 4 n] by simp

lemma bit_setMode_bits:
  "bit (setMode_bits cfg v) n \<longleftrightarrow> (if 10 \<le> n \<and> n < 12 then bit v (n - 10) else bit cfg n)"
  unfolding setMode_bits_def mask2_u16
  by (auto simp add: bit_simps dest: bit_imp_le_length)

lemma bit_getMode_bits: "bit (getMode_bits cfg) n \<longleftrightarrow> n < 2 \<and> bit cfg (n + 10)"
  unfolding getMode_bits_def mask2_u16
  by (auto simp add: bit_simps ac_simps dest: bit_imp_le_length)

lemma bit_setConversionRate_bits:
  "bit (setConversionRate_bits cfg v) n \<longleftrightarrow> (if 7 \<le> n \<and> n < 10 then bit v (n - 7) else bit cfg n)"
  unfolding setConversionRate_bits_def mask3_u16
  by (auto simp add: bit_simps dest: bit_imp_le_length)

lemma bit_getConversionRate_bits: "bit (getConversionRate_bits cfg) n \<longleftrightarrow> n < 3 \<and> bit cfg (n + 7)"
  unfolding getConversionRate_bits_def mask3_u16
  by (auto simp add: bit_simps ac_simps dest: bit_imp_le_length)

lemma bit_setAveraging_bits:
  "bit (setAveraging_bits cfg v) n \<longleftrightarrow> (if 5 \<le> n \<and> n < 7 then bit v (n - 5) else bit cfg n)"
  unfolding setAveraging_bits_def mask2_u16
  by (auto simp add: bit_simps dest: bit_imp_le_length)

lemma bit_getAveraging_bits: "bit (getAveraging_bits cfg) n \<longleftrightarrow> n < 2 \<and> bit cfg (n + 5)"
  unfolding getAveraging_bits_def mask2_u16
  by (auto simp add: bit_simps ac_simps dest: bit_imp_le_length)

lemma bit_setThermAlertMode_bits:
  "bit (setThermAlertMode_bits cfg v) n \<longleftrightarrow> (if n = 4 then bit v 0 else bit cfg n)"
  unfolding setThermAlertMode_bits_def
  by (auto simp add: bit_simps bit_16_int dest: bit_imp_le_length)

lemma bit_getThermAlertMode_bits: "bit (getThermAlertMode_bits cfg) n \<longleftrightarrow> n = 0 \<and> bit cfg 4"
  unfolding getThermAlertMode_bits_def
  by (auto simp add: bit_simps ac_simps dest: bit_imp_le_length)

lemma bit_setAlertPolarity_bits:
  "bit (setAlertPolarity_bits cfg v) n \<longleftrightarrow> (if n = 3 then v \<noteq> 0 else bit cfg n)"
  unfolding setAlertPolarity_bits_def
  by (auto simp add: bit_simps bit_8_int dest: bit_imp_le_length)

lemma bit_getAlertPolarity_bits: "bit (getAlertPolarity_bits cfg) n \<longleftrightarrow> n = 0 \<and> bit cfg 3"
  unfolding getAlertPolarity_bits_def
  by (auto simp add: bit_simps ac_simps dest: bit_imp_le_length)

text \<open>A value below \<open>2 ^ k\<close> has no bit at position \<open>k\<close> or above.\<close>

lemma bit_below: "(v::u16) < 2 ^ k \<Longrightarrow> bit v n \<Longrightarrow> n < k"
proof -
  assume a: "v < 2 ^ k" and b: "bit v n"
  from a have "v AND mask k = v" by (rule less_mask_eq)
  then have "bit (v AND mask k) n" using b by simp
  then show "n < k" by (simp add: bit_simps)
qed

lemma one_bit_nonzero: "(v::u16) < 2 ^ 1 \<Longrightarrow> v \<noteq> 0 \<Longrightarrow> bit v 0"
proof (rule ccontr)
  assume a: "v < 2 ^ 1" and b: "v \<noteq> 0" and c: "\<not> bit v 0"
  have "v = 0"
  proof (rule bit_word_eqI)
    fix n assume "n < LENGTH(16)"
    show "bit v n = bit (0::u16) n" using bit_below [OF a, of n] c by (cases n) auto
  qed
  with b show False by simp
qed

lemma get_set_bits:
  assumes "v < 2 ^ field_width f"
  shows "ucast (get_bits f (set_bits f cfg v)) = v"
proof (cases f)
  case MOD
  with assms have "v < 2 ^ 2" by simp
  then have "ucast (getMode_bits (setMode_bits cfg v)) = v"
    by - (rule bit_word_eqI,
        use bit_below [of v 2] in \<open>auto simp add: bit_getMode_bits bit_setMode_bits bit_simps\<close>)
  with MOD show ?thesis by simp
next
  case CONV
  with assms have "v < 2 ^ 3" by simp
  then have "ucast (getConversionRate_bits (setConversionRate_bits cfg v)) = v"
    by - (rule bit_word_eqI,
        use bit_below [of v 3] in
          \<open>auto simp add: bit_getConversionRate_bits bit_setConversionRate_bits bit_simps\<close>)
  with CONV show ?thesis by simp
next
  case AVG
  with assms have "v < 2 ^ 2" by simp
  then have "ucast (getAveraging_bits (setAveraging_bits cfg v)) = v"
    by - (rule bit_word_eqI,
        use bit_below [of v 2] in
          \<open>auto simp add: bit_getAveraging_bits bit_setAveraging_bits bit_simps\<close>)
  with AVG show ?thesis by simp
next
  case TM
  with assms have "v < 2 ^ 1" by simp
  then have "ucast (getThermAlertMode_bits (setThermAlertMode_bits cfg v)) = v"
    by - (rule bit_word_eqI,
        use bit_below [of v 1] in
          \<open>auto simp add: bit_getThermAlertMode_bits bit_setThermAlertMode_bits bit_simps\<close>)
  with TM show ?thesis by simp
next
  case POL
  with assms have "v < 2 ^ 1" by simp
  then have "ucast (getAlertPolarity_bits (setAlertPolarity_bits cfg v)) = v"
    by - (rule bit_word_eqI,
        use bit_below [of v 1] one_bit_nonzero [of v] in
          \<open>auto simp add: bit_getAlertPolarity_bits bit_setAlertPolarity_bits bit_simps\<close>)
  with POL show ?thesis by simp
qed

lemma set_bits_outside:
  assumes "\<not> in_span f n"
  shows "bit (set_bits f cfg v) n = bit cfg n"
  using assms
  by (cases f)
    (auto simp add: in_span_def bit_setMode_bits bit_setConversionRate_bits bit_setAveraging_bits
      bit_setThermAlertMode_bits bit_setAlertPolarity_bits)

text \<open>
  C1. For every 16-bit configuration word, each of the five fields and every value that
  fits the field's width: the getter expression applied to the result of the setter
  expression gives the value back, and every bit outside the field's span is the bit of
  the original word.
\<close>

theorem C1_field_roundtrip:
  "v < 2 ^ field_width f \<Longrightarrow>
     ucast (get_bits f (set_bits f cfg v)) = v \<and>
     (\<forall>n. \<not> in_span f n \<longrightarrow> bit (set_bits f cfg v) n = bit cfg n)"
  by (simp add: get_set_bits set_bits_outside)

theorem C1_field_roundtrip_witness:
  "(5::u16) < 2 ^ field_width CONV \<and>
   set_bits CONV 0xFFFF 5 = 0xFEFF \<and>
   ucast (get_bits CONV (set_bits CONV 0xFFFF 5)) = (5::u16) \<and>
   \<not> in_span CONV 12 \<and>
   bit (set_bits CONV 0xFFFF 5) 12 = bit (0xFFFF::u16) 12"
proof -
  have h: "(5::u16) < 2 ^ field_width CONV" by simp
  have e: "set_bits CONV 0xFFFF 5 = 0xFEFF" by (simp add: setConversionRate_bits_def)
  have n: "\<not> in_span CONV 12" by (simp add: in_span_def)
  from C1_field_roundtrip [OF h, of "0xFFFF"] n
  have "ucast (get_bits CONV (set_bits CONV 0xFFFF 5)) = (5::u16)"
    and "bit (set_bits CONV 0xFFFF 5) 12 = bit (0xFFFF::u16) 12"
    by blast+
  with h e n show ?thesis by blast
qed

section \<open>Temperature codec\<close>


text \<open>Two values as a check of the rounding: the binary32 numbers nearest to 1.8 and to 0.1
  have the significands \<^verbatim>\<open>0xE66666\<close> and \<^verbatim>\<open>0xCCCCCD\<close>.\<close>

lemma f32_round_examples:
  "f32_round 1.8 = 15099494 / 2 ^ 23" "f32_round 0.1 = 13421773 / 2 ^ 27"
  by code_simp+
















section \<open>Register access\<close>

text \<open>Both register primitives in closed form: one call of the transport for a write, one
  or two for a read.\<close>

lemma writeReg_eq:
  "writeReg T reg value s =
     (let w = wires s (i2c s);
          bytes = [reg, ucast (drop_bit 8 value), ucast (value AND 0xFF)];
          r = t_send T (address s) bytes True (line w)
      in (fst r = 0,
          s\<lparr>wires := (wires s)(i2c s := w\<lparr>txAddress := address s, txBuffer := [], line := snd r\<rparr>),
            trace := trace s @ [Tx (i2c s) (address s) bytes True (fst r)]\<rparr>))"
  by (simp add: writeReg_def i2c_beginTransmission_def i2c_write_def i2c_endTransmission_def
      wire_upd_def this_wire_def Let_def split: prod.splits)

lemma take2_cases:
  obtains "take 2 bs = []" | b where "take 2 bs = [b]" | b1 b2 where "take 2 bs = [b1, b2]"
proof (cases bs)
  case Nil
  then show ?thesis using that by simp
next
  case (Cons a as)
  show ?thesis
  proof (cases as)
    case Nil
    with Cons show ?thesis using that by simp
  next
    case (Cons c cs)
    with \<open>bs = a # as\<close> show ?thesis using that by (simp add: numeral_2_eq_2)
  qed
qed

lemma readReg_eq:
  "readReg T reg value s =
     (let w = wires s (i2c s);
          r = t_send T (address s) [reg] False (line w);
          e1 = Tx (i2c s) (address s) [reg] False (fst r)
      in if fst r \<noteq> 0
         then (False, value,
               s\<lparr>wires := (wires s)(i2c s := w\<lparr>txAddress := address s, txBuffer := [], line := snd r\<rparr>),
                 trace := trace s @ [e1]\<rparr>)
         else let q = t_recv T (address s) 2 (snd r);
                  got = take 2 (fst q);
                  e2 = Rx (i2c s) (address s) 2 got
              in (case got of
                    [b1, b2] \<Rightarrow>
                      (True, be16 b1 b2,
                       s\<lparr>trace := trace s @ [e1, e2],
                         wires := (wires s)(i2c s := w\<lparr>txAddress := address s, txBuffer := [],
                                      line := snd q, rxBuffer := []\<rparr>)\<rparr>)
                  | _ \<Rightarrow>
                      (False, value,
                       s\<lparr>wires := (wires s)(i2c s := w\<lparr>txAddress := address s, txBuffer := [],
                                      rxBuffer := got, line := snd q\<rparr>),
                         trace := trace s @ [e1, e2]\<rparr>)))"
proof -
  obtain st l where snd: "t_send T (address s) [reg] False (line (wires s (i2c s))) = (st, l)"
    by (cases "t_send T (address s) [reg] False (line (wires s (i2c s)))")
  obtain bs l' where rcv: "t_recv T (address s) 2 l = (bs, l')"
    by (cases "t_recv T (address s) 2 l")
  show ?thesis
  proof (cases "st = 0")
    case False
    with snd show ?thesis
      by (simp add: readReg_def i2c_beginTransmission_def i2c_write_def i2c_endTransmission_def
          wire_upd_def this_wire_def Let_def)
  next
    case True
    show ?thesis
    proof (cases bs rule: take2_cases)
      case 1
      with snd rcv True show ?thesis
        by (simp add: readReg_def i2c_beginTransmission_def i2c_write_def i2c_endTransmission_def
            i2c_requestFrom_def wire_upd_def this_wire_def Let_def del: length_take)
    next
      case (2 b)
      with snd rcv True show ?thesis
        by (simp add: readReg_def i2c_beginTransmission_def i2c_write_def i2c_endTransmission_def
            i2c_requestFrom_def wire_upd_def this_wire_def Let_def del: length_take)
    next
      case (3 b1 b2)
      with snd rcv True show ?thesis
        by (simp add: readReg_def i2c_beginTransmission_def i2c_write_def i2c_endTransmission_def
            i2c_requestFrom_def i2c_read_def wire_upd_def this_wire_def Let_def be16_def
            del: length_take)
    qed
  qed
qed

lemma writeReg_cases:
  assumes "writeReg T reg value s = (ok, s')"
  shows "i2c s' = i2c s \<and> address s' = address s \<and>
    (\<forall>p. p \<noteq> i2c s \<longrightarrow> wires s' p = wires s p) \<and>
    (\<exists>st. ok = (st = 0) \<and>
       trace s' = trace s @
         [Tx (i2c s) (address s) [reg, ucast (drop_bit 8 value), ucast (value AND 0xFF)] True st])"
  using assms by (auto simp add: writeReg_eq Let_def)

lemma readReg_cases:
  assumes "readReg T reg value s = (ok, v, s')"
  shows "i2c s' = i2c s \<and> address s' = address s \<and>
    (\<forall>p. p \<noteq> i2c s \<longrightarrow> wires s' p = wires s p) \<and>
    ((\<exists>st. st \<noteq> 0 \<and> \<not> ok \<and> v = value \<and>
        trace s' = trace s @ [Tx (i2c s) (address s) [reg] False st]) \<or>
     (\<exists>bs. length bs \<noteq> 2 \<and> \<not> ok \<and> v = value \<and>
        trace s' = trace s @
          [Tx (i2c s) (address s) [reg] False 0, Rx (i2c s) (address s) 2 bs]) \<or>
     (\<exists>b1 b2. ok \<and> v = be16 b1 b2 \<and>
        trace s' = trace s @
          [Tx (i2c s) (address s) [reg] False 0, Rx (i2c s) (address s) 2 [b1, b2]]))"
proof (cases "fst (t_send T (address s) [reg] False (line (wires s (i2c s)))) = 0")
  case False
  with assms show ?thesis by (auto simp add: readReg_eq Let_def)
next
  case True
  let ?q = "t_recv T (address s) 2 (snd (t_send T (address s) [reg] False (line (wires s (i2c s)))))"
  show ?thesis
  proof (cases "fst ?q" rule: take2_cases)
    case 1
    with assms True show ?thesis by (auto simp add: readReg_eq Let_def)
  next
    case (2 b)
    with assms True show ?thesis by (auto simp add: readReg_eq Let_def)
  next
    case (3 b1 b2)
    with assms True show ?thesis by (auto simp add: readReg_eq Let_def)
  qed
qed

section \<open>The binding of the driver object\<close>

lemma bound_step_iff:
  "bound_step s s' \<longleftrightarrow>
     i2c s' = i2c s \<and> address s' = address s \<and>
     (\<forall>p. p \<noteq> i2c s \<longrightarrow> wires s' p = wires s p) \<and>
     (\<exists>evs. trace s' = trace s @ evs \<and> list_all (addressed (i2c s) (address s)) evs)"
proof
  assume b: "bound_step s s'"
  then have "trace s' = trace s @ new_events s s'"
    unfolding bound_step_def new_events_def by (metis append_take_drop_id)
  with b show "i2c s' = i2c s \<and> address s' = address s \<and>
     (\<forall>p. p \<noteq> i2c s \<longrightarrow> wires s' p = wires s p) \<and>
     (\<exists>evs. trace s' = trace s @ evs \<and> list_all (addressed (i2c s) (address s)) evs)"
    unfolding bound_step_def by blast
next
  assume "i2c s' = i2c s \<and> address s' = address s \<and>
     (\<forall>p. p \<noteq> i2c s \<longrightarrow> wires s' p = wires s p) \<and>
     (\<exists>evs. trace s' = trace s @ evs \<and> list_all (addressed (i2c s) (address s)) evs)"
  then show "bound_step s s'"
    by (auto simp add: bound_step_def new_events_def)
qed

lemma bound_step_refl: "bound_step s s"
  by (simp add: bound_step_iff)

lemma bound_step_trans:
  assumes "bound_step s s'" and "bound_step s' s''"
  shows "bound_step s s''"
proof -
  from assms(1) obtain e1 where 1: "i2c s' = i2c s" "address s' = address s"
    "\<forall>p. p \<noteq> i2c s \<longrightarrow> wires s' p = wires s p" "trace s' = trace s @ e1"
    "list_all (addressed (i2c s) (address s)) e1"
    unfolding bound_step_iff by blast
  from assms(2) obtain e2 where 2: "i2c s'' = i2c s'" "address s'' = address s'"
    "\<forall>p. p \<noteq> i2c s' \<longrightarrow> wires s'' p = wires s' p" "trace s'' = trace s' @ e2"
    "list_all (addressed (i2c s') (address s')) e2"
    unfolding bound_step_iff by blast
  have "trace s'' = trace s @ (e1 @ e2)" using 1 2 by simp
  moreover have "list_all (addressed (i2c s) (address s)) (e1 @ e2)" using 1 2 by simp
  ultimately show ?thesis
    unfolding bound_step_iff using 1 2 by (metis (no_types))
qed

lemma bound_step_delay: "bound_step s (delay ms s)"
  by (simp add: bound_step_iff delay_def)

lemma bound_step_writeReg: "writeReg T reg value s = (ok, s') \<Longrightarrow> bound_step s s'"
  using writeReg_cases [of T reg "value" s ok s'] unfolding bound_step_iff by auto

lemma bound_step_readReg: "readReg T reg value s = (ok, v, s') \<Longrightarrow> bound_step s s'"
  using readReg_cases [of T reg "value" s ok v s'] unfolding bound_step_iff by auto

section \<open>Runs on the simulated peripheral\<close>

lemmas sim_defs = sim_def sim_send_def sim_recv_def sys0_def ready0_def wire0_def sim_dev0_def
  tmp117_regs_def be16_def

lemmas reg_defs = REG_TEMP_def REG_CONFIG_def REG_T_HIGH_def REG_T_LOW_def REG_EEPROM_UL_def
  REG_EEPROM1_def REG_EEPROM2_def REG_TEMP_OFFSET_def REG_EEPROM3_def REG_DEVICE_ID_def

lemma triple_collapse: "t = (fst t, fst (snd t), snd (snd t))"
  by simp

section \<open>Initialisation\<close>

text \<open>
  C2. \<open>tmp_begin\<close> stores the address, then issues exactly one read of the identity
  register: the address phase and, if that is acknowledged, one request for two bytes. It
  returns success exactly when both succeed and the two bytes, high byte first, are 0x0117
  or 0x1116. Nothing is sent a second time.
\<close>

theorem C2_begin_identity:
  assumes "tmp_begin T esp a sda scl clk s = (ok, s')"
  shows "address s' = a \<and> i2c s' = i2c s \<and>
    ((\<exists>st. st \<noteq> 0 \<and> \<not> ok \<and>
        new_events s s' = [Tx (i2c s) a [REG_DEVICE_ID] False st]) \<or>
     (\<exists>bs. length bs \<noteq> 2 \<and> \<not> ok \<and>
        new_events s s' = [Tx (i2c s) a [REG_DEVICE_ID] False 0, Rx (i2c s) a 2 bs]) \<or>
     (\<exists>b1 b2. ok = (be16 b1 b2 = 0x0117 \<or> be16 b1 b2 = 0x1116) \<and>
        new_events s s' = [Tx (i2c s) a [REG_DEVICE_ID] False 0, Rx (i2c s) a 2 [b1, b2]]))"
proof -
  define s2 where "s2 = i2c_setClock clk
    (if esp then (if sda \<noteq> 0xFF \<and> scl \<noteq> 0xFF then i2c_begin_pins sda scl (s\<lparr>address := a\<rparr>)
                  else i2c_begin (s\<lparr>address := a\<rparr>))
     else i2c_begin (s\<lparr>address := a\<rparr>))"
  have p: "i2c s2 = i2c s" "address s2 = a" "trace s2 = trace s"
    by (simp_all add: s2_def i2c_setClock_def i2c_begin_def i2c_begin_pins_def wire_upd_def)
  obtain rok ident s3 where r: "readReg T REG_DEVICE_ID uninit16 s2 = (rok, ident, s3)"
    by (cases "readReg T REG_DEVICE_ID uninit16 s2")
  from assms r have e: "s' = s3" "ok = (rok \<and> (ident = 0x0117 \<or> ident = 0x1116))"
    by (auto simp add: tmp_begin_def getDeviceID_def Let_def s2_def split: if_splits)
  from readReg_cases [OF r] show ?thesis
    unfolding p e by (auto simp add: new_events_def p)
qed

lemma run_begin_ok:
  "tmp_begin sim False 0x48 0xFF 0xFF 400000 (sys0 []) = (ok, s') \<Longrightarrow>
     ok \<and> trace s' = [Tx 0 0x48 [0x0F] False 0, Rx 0 0x48 2 [0x01, 0x17]]"
  by (auto simp add: tmp_begin_def getDeviceID_def readReg_eq i2c_begin_def i2c_setClock_def
      wire_upd_def Let_def sim_defs reg_defs uninit16_def)

lemma run_begin_nack:
  "tmp_begin sim False 0x48 0xFF 0xFF 400000 (sys0 [2]) = (ok, s') \<Longrightarrow>
     \<not> ok \<and> trace s' = [Tx 0 0x48 [0x0F] False 2]"
  by (auto simp add: tmp_begin_def getDeviceID_def readReg_eq i2c_begin_def i2c_setClock_def
      wire_upd_def Let_def sim_defs reg_defs uninit16_def)

theorem C2_begin_identity_witness:
  "fst (tmp_begin sim False 0x48 0xFF 0xFF 400000 (sys0 [])) \<and>
   address (snd (tmp_begin sim False 0x48 0xFF 0xFF 400000 (sys0 []))) = 0x48 \<and>
   new_events (sys0 []) (snd (tmp_begin sim False 0x48 0xFF 0xFF 400000 (sys0 []))) =
     [Tx 0 0x48 [0x0F] False 0, Rx 0 0x48 2 [0x01, 0x17]] \<and>
   be16 0x01 0x17 = 0x0117 \<and>
   \<not> fst (tmp_begin sim False 0x48 0xFF 0xFF 400000 (sys0 [2])) \<and>
   new_events (sys0 [2]) (snd (tmp_begin sim False 0x48 0xFF 0xFF 400000 (sys0 [2]))) =
     [Tx 0 0x48 [0x0F] False 2]"
proof -
  have "be16 0x01 0x17 = 0x0117" by (simp add: be16_def)
  then show ?thesis
    using C2_begin_identity [OF surjective_pairing, of sim False "0x48" "0xFF" "0xFF" 400000 "sys0 []"]
      run_begin_ok [OF surjective_pairing] run_begin_nack [OF surjective_pairing]
    by (simp add: new_events_def sys0_def)
qed

section \<open>EEPROM\<close>

text \<open>
  C5. An EEPROM call on a register other than 0x05, 0x06 and 0x08 returns failure and
  leaves the whole state, trace included, as it was: no bus transaction, no delay, and the
  output variable of \<open>readEEPROM\<close> untouched. On one of the three slots \<open>readEEPROM\<close> is a
  single register read: the address phase of that slot and at most one request for two
  bytes, with no transmission to the lock register.
\<close>

theorem C5_eeprom_slot_check:
  "(reg \<noteq> REG_EEPROM1 \<and> reg \<noteq> REG_EEPROM2 \<and> reg \<noteq> REG_EEPROM3 \<longrightarrow>
      writeEEPROM T reg v s = (False, s) \<and> readEEPROM T reg out s = (False, out, s)) \<and>
   (reg = REG_EEPROM1 \<or> reg = REG_EEPROM2 \<or> reg = REG_EEPROM3 \<longrightarrow>
      readEEPROM T reg out s = readReg T reg out s \<and>
      (\<exists>st bs. new_events s (snd (snd (readEEPROM T reg out s))) =
                 [Tx (i2c s) (address s) [reg] False st] \<or>
               new_events s (snd (snd (readEEPROM T reg out s))) =
                 [Tx (i2c s) (address s) [reg] False st, Rx (i2c s) (address s) 2 bs]))"
proof (intro conjI impI)
  assume "reg \<noteq> REG_EEPROM1 \<and> reg \<noteq> REG_EEPROM2 \<and> reg \<noteq> REG_EEPROM3"
  then show "writeEEPROM T reg v s = (False, s)" "readEEPROM T reg out s = (False, out, s)"
    by (simp_all add: writeEEPROM_def readEEPROM_def)
next
  assume a: "reg = REG_EEPROM1 \<or> reg = REG_EEPROM2 \<or> reg = REG_EEPROM3"
  then show e: "readEEPROM T reg out s = readReg T reg out s"
    by (auto simp add: readEEPROM_def)
  obtain ok x s' where r: "readReg T reg out s = (ok, x, s')"
    by (cases "readReg T reg out s")
  from readReg_cases [OF r]
  show "\<exists>st bs. new_events s (snd (snd (readEEPROM T reg out s))) =
                 [Tx (i2c s) (address s) [reg] False st] \<or>
               new_events s (snd (snd (readEEPROM T reg out s))) =
                 [Tx (i2c s) (address s) [reg] False st, Rx (i2c s) (address s) 2 bs]"
    unfolding e r by (auto simp add: new_events_def)
qed

theorem C5_eeprom_slot_check_witness:
  "(0x07 \<noteq> REG_EEPROM1 \<and> 0x07 \<noteq> REG_EEPROM2 \<and> 0x07 \<noteq> REG_EEPROM3) \<and>
   writeEEPROM sim 0x07 0xBEEF (ready0 []) = (False, ready0 []) \<and>
   readEEPROM sim 0x07 0x1234 (ready0 []) = (False, 0x1234, ready0 []) \<and>
   (0x06 = REG_EEPROM1 \<or> 0x06 = REG_EEPROM2 \<or> 0x06 = REG_EEPROM3) \<and>
   readEEPROM sim 0x06 0x1234 (ready0 []) = readReg sim 0x06 0x1234 (ready0 [])"
proof -
  have a: "0x07 \<noteq> REG_EEPROM1 \<and> 0x07 \<noteq> REG_EEPROM2 \<and> 0x07 \<noteq> REG_EEPROM3"
    by (simp add: reg_defs)
  have b: "0x06 = REG_EEPROM1 \<or> 0x06 = REG_EEPROM2 \<or> 0x06 = REG_EEPROM3"
    by (simp add: reg_defs)
  from C5_eeprom_slot_check [of "0x07" sim "0xBEEF" "ready0 []" "0x1234"] a
  have "writeEEPROM sim 0x07 0xBEEF (ready0 []) = (False, ready0 [])"
    and "readEEPROM sim 0x07 0x1234 (ready0 []) = (False, 0x1234, ready0 [])"
    by blast+
  moreover from C5_eeprom_slot_check [of "0x06" sim "0xBEEF" "ready0 []" "0x1234"] b
  have "readEEPROM sim 0x06 0x1234 (ready0 []) = readReg sim 0x06 0x1234 (ready0 [])"
    by blast
  ultimately show ?thesis using a b by blast
qed

text \<open>
  C3, as the code has it. On a valid slot \<open>writeEEPROM\<close> sends 0x8000 to the lock register,
  waits 2 ms, sends the value to the slot high byte first, waits 10 ms, and sends 0x0000
  to the lock register; when that last transmission succeeds a further wait of 2 ms
  follows. There are three bus transmissions. A failed unlock or a failed data write ends
  the sequence at once with failure; when all three transmissions succeed the result is
  success. (What is returned when only the lock transmission fails is the subject of C4.)
\<close>

theorem C3_writeEEPROM_sequence:
  assumes "reg = REG_EEPROM1 \<or> reg = REG_EEPROM2 \<or> reg = REG_EEPROM3"
    and "writeEEPROM T reg v s = (ok, s')"
  shows
    "(\<exists>st. st \<noteq> 0 \<and> \<not> ok \<and> new_events s s' =
        [Tx (i2c s) (address s) [REG_EEPROM_UL, 0x80, 0x00] True st]) \<or>
     (\<exists>st. st \<noteq> 0 \<and> \<not> ok \<and> new_events s s' =
        [Tx (i2c s) (address s) [REG_EEPROM_UL, 0x80, 0x00] True 0, Delay 2,
         Tx (i2c s) (address s) [reg, ucast (drop_bit 8 v), ucast (v AND 0xFF)] True st]) \<or>
     (\<exists>st. st \<noteq> 0 \<and> new_events s s' =
        [Tx (i2c s) (address s) [REG_EEPROM_UL, 0x80, 0x00] True 0, Delay 2,
         Tx (i2c s) (address s) [reg, ucast (drop_bit 8 v), ucast (v AND 0xFF)] True 0, Delay 10,
         Tx (i2c s) (address s) [REG_EEPROM_UL, 0x00, 0x00] True st]) \<or>
     (ok \<and> new_events s s' =
        [Tx (i2c s) (address s) [REG_EEPROM_UL, 0x80, 0x00] True 0, Delay 2,
         Tx (i2c s) (address s) [reg, ucast (drop_bit 8 v), ucast (v AND 0xFF)] True 0, Delay 10,
         Tx (i2c s) (address s) [REG_EEPROM_UL, 0x00, 0x00] True 0, Delay 2])"
proof -
  obtain ok1 s1 where w1: "writeReg T REG_EEPROM_UL 0x8000 s = (ok1, s1)"
    by (cases "writeReg T REG_EEPROM_UL 0x8000 s")
  from writeReg_cases [OF w1] obtain st1 where c1: "i2c s1 = i2c s" "address s1 = address s"
    "ok1 = (st1 = 0)"
    "trace s1 = trace s @ [Tx (i2c s) (address s) [REG_EEPROM_UL, 0x80, 0x00] True st1]"
    by auto
  show ?thesis
  proof (cases ok1)
    case False
    with assms w1 have "\<not> ok" "s' = s1"
      by (auto simp add: writeEEPROM_def unlockEEPROM_def Let_def)
    with c1 False show ?thesis by (auto simp add: new_events_def)
  next
    case u: True
    obtain ok2 s2 where w2: "writeReg T reg v (delay 2 s1) = (ok2, s2)"
      by (cases "writeReg T reg v (delay 2 s1)")
    from writeReg_cases [OF w2] obtain st2 where c2: "i2c s2 = i2c s" "address s2 = address s"
      "ok2 = (st2 = 0)"
      "trace s2 = trace s @ [Tx (i2c s) (address s) [REG_EEPROM_UL, 0x80, 0x00] True 0, Delay 2,
         Tx (i2c s) (address s) [reg, ucast (drop_bit 8 v), ucast (v AND 0xFF)] True st2]"
      using c1 u by (auto simp add: delay_def)
    show ?thesis
    proof (cases ok2)
      case False
      with assms w1 w2 u have "\<not> ok" "s' = s2"
        by (auto simp add: writeEEPROM_def unlockEEPROM_def Let_def)
      with c2 False show ?thesis by (auto simp add: new_events_def)
    next
      case d: True
      obtain ok3 s3 where w3: "writeReg T REG_EEPROM_UL 0x0000 (delay 10 s2) = (ok3, s3)"
        by (cases "writeReg T REG_EEPROM_UL 0x0000 (delay 10 s2)")
      from writeReg_cases [OF w3] obtain st3 where c3: "ok3 = (st3 = 0)"
        "trace s3 = trace s @ [Tx (i2c s) (address s) [REG_EEPROM_UL, 0x80, 0x00] True 0, Delay 2,
           Tx (i2c s) (address s) [reg, ucast (drop_bit 8 v), ucast (v AND 0xFF)] True 0, Delay 10,
           Tx (i2c s) (address s) [REG_EEPROM_UL, 0x00, 0x00] True st3]"
        using c2 d by (auto simp add: delay_def)
      from assms w1 w2 w3 u d have r: "ok" "s' = (if ok3 then delay 2 s3 else s3)"
        by (auto simp add: writeEEPROM_def unlockEEPROM_def lockEEPROM_def Let_def
            split: if_splits)
      show ?thesis
      proof (cases ok3)
        case False
        with r c3 show ?thesis by (auto simp add: new_events_def)
      next
        case True
        with r c3 show ?thesis by (auto simp add: new_events_def delay_def)
      qed
    qed
  qed
qed

lemma run_writeEEPROM_ok:
  "writeEEPROM sim 0x05 0xBEEF (ready0 []) = (ok, s') \<Longrightarrow>
     ok \<and> trace s' =
       [Tx 0 0x48 [0x04, 0x80, 0x00] True 0, Delay 2, Tx 0 0x48 [0x05, 0xBE, 0xEF] True 0,
        Delay 10, Tx 0 0x48 [0x04, 0x00, 0x00] True 0, Delay 2]"
  by (auto simp add: writeEEPROM_def unlockEEPROM_def lockEEPROM_def writeReg_eq delay_def
      Let_def sim_defs reg_defs)

lemma run_writeEEPROM_lock_fails:
  "writeEEPROM sim 0x05 0xBEEF (ready0 [0, 0, 4]) = (ok, s') \<Longrightarrow>
     ok \<and> trace s' =
       [Tx 0 0x48 [0x04, 0x80, 0x00] True 0, Delay 2, Tx 0 0x48 [0x05, 0xBE, 0xEF] True 0,
        Delay 10, Tx 0 0x48 [0x04, 0x00, 0x00] True 4] \<and>
     regs (line (wires s' 0)) 0x05 = 0xBEEF \<and> regs (line (wires s' 0)) 0x04 = 0x8000"
  by (auto simp add: writeEEPROM_def unlockEEPROM_def lockEEPROM_def writeReg_eq delay_def
      Let_def sim_defs reg_defs)

theorem C3_writeEEPROM_sequence_witness:
  "(0x05 = REG_EEPROM1 \<or> 0x05 = REG_EEPROM2 \<or> 0x05 = REG_EEPROM3) \<and>
   fst (writeEEPROM sim 0x05 0xBEEF (ready0 [])) \<and>
   new_events (ready0 []) (snd (writeEEPROM sim 0x05 0xBEEF (ready0 []))) =
     [Tx 0 0x48 [0x04, 0x80, 0x00] True 0, Delay 2, Tx 0 0x48 [0x05, 0xBE, 0xEF] True 0,
      Delay 10, Tx 0 0x48 [0x04, 0x00, 0x00] True 0, Delay 2]"
proof -
  have h: "0x05 = REG_EEPROM1 \<or> 0x05 = REG_EEPROM2 \<or> 0x05 = REG_EEPROM3"
    by (simp add: REG_EEPROM1_def)
  show ?thesis
    using h C3_writeEEPROM_sequence [OF h surjective_pairing, of sim "0xBEEF" "ready0 []"]
      run_writeEEPROM_ok [OF surjective_pairing]
    by (simp add: new_events_def ready0_def sys0_def)
qed

text \<open>The sequence the specification lists ends with the lock transmission. A run in which
  every transmission succeeds has one more entry, the wait inside \<open>lockEEPROM\<close>.\<close>

theorem C3_trailing_wait_counterexample:
  "fst (writeEEPROM sim 0x05 0xBEEF (ready0 [])) \<and>
   new_events (ready0 []) (snd (writeEEPROM sim 0x05 0xBEEF (ready0 []))) \<noteq>
     [Tx 0 0x48 [0x04, 0x80, 0x00] True 0, Delay 2, Tx 0 0x48 [0x05, 0xBE, 0xEF] True 0,
      Delay 10, Tx 0 0x48 [0x04, 0x00, 0x00] True 0] \<and>
   length (new_events (ready0 []) (snd (writeEEPROM sim 0x05 0xBEEF (ready0 [])))) = 6 \<and>
   length (filter is_write (new_events (ready0 []) (snd (writeEEPROM sim 0x05 0xBEEF (ready0 []))))) = 3"
  using run_writeEEPROM_ok [OF surjective_pairing]
  by (simp add: new_events_def ready0_def sys0_def)

text \<open>For every transport: once the unlock and the data write have succeeded, the result
  of \<open>writeEEPROM\<close> is success whatever \<open>lockEEPROM\<close> returns.\<close>

lemma writeEEPROM_ignores_lock:
  assumes "reg = REG_EEPROM1 \<or> reg = REG_EEPROM2 \<or> reg = REG_EEPROM3"
    and "unlockEEPROM T s = (True, s1)"
    and "writeReg T reg v s1 = (True, s2)"
    and "lockEEPROM T (delay 10 s2) = (locked, s3)"
  shows "writeEEPROM T reg v s = (True, s3)"
  using assms by (auto simp add: writeEEPROM_def Let_def)

text \<open>
  C4 at a run where the lock transmission is not acknowledged (status 4): the slot holds
  the new value, the lock register still holds 0x8000, and \<open>writeEEPROM\<close> returns success.
  The failure of the lock step does not reach the caller.
\<close>

theorem C4_lock_failure_not_reported:
  "fst (writeEEPROM sim 0x05 0xBEEF (ready0 [0, 0, 4])) \<and>
   \<not> fst (lockEEPROM sim (ready0 [4])) \<and>
   trace (snd (writeEEPROM sim 0x05 0xBEEF (ready0 [0, 0, 4]))) =
     [Tx 0 0x48 [0x04, 0x80, 0x00] True 0, Delay 2, Tx 0 0x48 [0x05, 0xBE, 0xEF] True 0,
      Delay 10, Tx 0 0x48 [0x04, 0x00, 0x00] True 4] \<and>
   regs (line (wires (snd (writeEEPROM sim 0x05 0xBEEF (ready0 [0, 0, 4]))) 0)) 0x05 = 0xBEEF \<and>
   regs (line (wires (snd (writeEEPROM sim 0x05 0xBEEF (ready0 [0, 0, 4]))) 0)) 0x04 = 0x8000"
proof -
  have "\<not> fst (lockEEPROM sim (ready0 [4]))"
    by (simp add: lockEEPROM_def writeReg_eq Let_def sim_defs reg_defs)
  then show ?thesis
    using run_writeEEPROM_lock_fails [OF surjective_pairing] by simp
qed

section \<open>Field setters\<close>

lemma call_setter_eq:
  "call_setter T c s =
     (let (ok, cfg, s1) = readReg T REG_CONFIG uninit16 s
      in if \<not> ok then (False, s1)
         else writeReg T REG_CONFIG (set_bits (setter_field c) cfg (setter_value c)) s1)"
  by (cases c)
    (auto simp add: setMode_def setAveraging_def setConversionRate_def setAlertPolarity_def
      setThermAlertMode_def readConfig_def writeConfig_def split: prod.splits)

lemma call_setter_cases:
  assumes "call_setter T c s = (ok, s')"
  shows
    "(\<exists>st. st \<noteq> 0 \<and> \<not> ok \<and>
        new_events s s' = [Tx (i2c s) (address s) [REG_CONFIG] False st]) \<or>
     (\<exists>bs. length bs \<noteq> 2 \<and> \<not> ok \<and>
        new_events s s' =
          [Tx (i2c s) (address s) [REG_CONFIG] False 0, Rx (i2c s) (address s) 2 bs]) \<or>
     (\<exists>b1 b2 st w.
        w = set_bits (setter_field c) (be16 b1 b2) (setter_value c) \<and>
        ok = (st = 0) \<and>
        new_events s s' =
          [Tx (i2c s) (address s) [REG_CONFIG] False 0, Rx (i2c s) (address s) 2 [b1, b2],
           Tx (i2c s) (address s) [REG_CONFIG, ucast (drop_bit 8 w), ucast (w AND 0xFF)] True st] \<and>
        (\<forall>n. \<not> in_span (setter_field c) n \<longrightarrow> bit w n = bit (be16 b1 b2) n))"
proof -
  obtain rok cfg s1 where r: "readReg T REG_CONFIG uninit16 s = (rok, cfg, s1)"
    by (cases "readReg T REG_CONFIG uninit16 s")
  show ?thesis
  proof (cases rok)
    case False
    with assms r have "\<not> ok" "s' = s1" by (simp_all add: call_setter_eq)
    with readReg_cases [OF r] False show ?thesis by (auto simp add: new_events_def)
  next
    case True
    define w where "w = set_bits (setter_field c) cfg (setter_value c)"
    from assms r True have wr: "writeReg T REG_CONFIG w s1 = (ok, s')"
      by (simp add: call_setter_eq w_def)
    from readReg_cases [OF r] True obtain b1 b2 where rd: "i2c s1 = i2c s" "address s1 = address s"
      "cfg = be16 b1 b2"
      "trace s1 = trace s @
         [Tx (i2c s) (address s) [REG_CONFIG] False 0, Rx (i2c s) (address s) 2 [b1, b2]]"
      by auto
    from writeReg_cases [OF wr] obtain st where "ok = (st = 0)"
      "trace s' = trace s @
         [Tx (i2c s) (address s) [REG_CONFIG] False 0, Rx (i2c s) (address s) 2 [b1, b2],
          Tx (i2c s) (address s) [REG_CONFIG, ucast (drop_bit 8 w), ucast (w AND 0xFF)] True st]"
      using rd by auto
    moreover have "\<forall>n. \<not> in_span (setter_field c) n \<longrightarrow> bit w n = bit (be16 b1 b2) n"
      by (simp add: w_def rd set_bits_outside)
    ultimately show ?thesis
      unfolding w_def rd by (auto simp add: new_events_def)
  qed
qed

text \<open>
  C7, as the code has it. Each of the five field setters issues exactly one read of the
  configuration register. If the read fails the setter returns failure and writes
  nothing. If it succeeds the setter issues exactly one write of the configuration
  register, and the word written agrees with the word read in every bit outside the
  setter's field.
\<close>

theorem C7_setter_read_modify_write:
  assumes "call_setter T c s = (ok, s')"
  shows
    "(\<exists>st. st \<noteq> 0 \<and> \<not> ok \<and>
        new_events s s' = [Tx (i2c s) (address s) [REG_CONFIG] False st]) \<or>
     (\<exists>bs. length bs \<noteq> 2 \<and> \<not> ok \<and>
        new_events s s' =
          [Tx (i2c s) (address s) [REG_CONFIG] False 0, Rx (i2c s) (address s) 2 bs]) \<or>
     (\<exists>b1 b2 st w.
        w = set_bits (setter_field c) (be16 b1 b2) (setter_value c) \<and>
        ok = (st = 0) \<and>
        new_events s s' =
          [Tx (i2c s) (address s) [REG_CONFIG] False 0, Rx (i2c s) (address s) 2 [b1, b2],
           Tx (i2c s) (address s) [REG_CONFIG, ucast (drop_bit 8 w), ucast (w AND 0xFF)] True st] \<and>
        (\<forall>n. \<not> in_span (setter_field c) n \<longrightarrow> bit w n = bit (be16 b1 b2) n))"
  using assms by (rule call_setter_cases)

lemma run_setMode_ok:
  "call_setter sim (Mode ONE_SHOT) (ready0 []) = (ok, s') \<Longrightarrow>
     ok \<and> trace s' =
       [Tx 0 0x48 [0x01] False 0, Rx 0 0x48 2 [0x02, 0x20], Tx 0 0x48 [0x01, 0x0E, 0x20] True 0]"
  by (auto simp add: call_setter_eq readReg_eq writeReg_eq Let_def sim_defs reg_defs
      setMode_bits_def uninit16_def)

lemma run_setMode_nack:
  "call_setter sim (Mode ONE_SHOT) (ready0 [2]) = (ok, s') \<Longrightarrow>
     \<not> ok \<and> trace s' = [Tx 0 0x48 [0x01] False 2]"
  by (auto simp add: call_setter_eq readReg_eq writeReg_eq Let_def sim_defs reg_defs
      setMode_bits_def uninit16_def)

theorem C7_setter_read_modify_write_witness:
  "fst (call_setter sim (Mode ONE_SHOT) (ready0 [])) \<and>
   new_events (ready0 []) (snd (call_setter sim (Mode ONE_SHOT) (ready0 []))) =
     [Tx 0 0x48 [0x01] False 0, Rx 0 0x48 2 [0x02, 0x20], Tx 0 0x48 [0x01, 0x0E, 0x20] True 0] \<and>
   set_bits MOD (be16 0x02 0x20) (mode_val ONE_SHOT) = 0x0E20"
proof -
  have "set_bits MOD (be16 0x02 0x20) (mode_val ONE_SHOT) = 0x0E20"
    by (simp add: be16_def setMode_bits_def)
  then show ?thesis
    using C7_setter_read_modify_write [OF surjective_pairing, of sim "Mode ONE_SHOT" "ready0 []"]
      run_setMode_ok [OF surjective_pairing]
    by (simp add: new_events_def ready0_def sys0_def)
qed

text \<open>Without the proviso on the read the property fails: when the read is not
  acknowledged the setter sends one address phase and no write.\<close>

theorem C7_failed_read_counterexample:
  "\<not> fst (call_setter sim (Mode ONE_SHOT) (ready0 [2])) \<and>
   new_events (ready0 [2]) (snd (call_setter sim (Mode ONE_SHOT) (ready0 [2]))) =
     [Tx 0 0x48 [0x01] False 2] \<and>
   \<not> one_read_one_write
       (new_events (ready0 [2]) (snd (call_setter sim (Mode ONE_SHOT) (ready0 [2]))))"
  using run_setMode_nack [OF surjective_pairing]
  by (simp add: new_events_def ready0_def sys0_def one_read_one_write_def)

section \<open>Output variables\<close>

lemma readReg_out_kept: "out_kept (readReg T reg) out s"
proof -
  obtain ok v s' where r: "readReg T reg out s = (ok, v, s')"
    by (cases "readReg T reg out s")
  from readReg_cases [OF r] show ?thesis
    by (auto simp add: out_kept_def r)
qed

lemma readReg_failed: "readReg T reg out s = (False, v, s') \<Longrightarrow> v = out"
  using readReg_out_kept [of T reg out s] by (simp add: out_kept_def)

lemma config_getters_out_kept:
  "out_kept (getConversionRate T) out s"
  "out_kept (getAveraging T) out s"
  "out_kept (getMode T) out s"
  "out_kept (getThermAlertMode T) out s"
  "out_kept (getAlertPolarity T) out s"
  by (simp_all add: out_kept_def getConversionRate_def getAveraging_def getMode_def
      getThermAlertMode_def getAlertPolarity_def readConfig_def split: prod.splits)

lemma temperature_getters_out_kept:
  "out_kept (readRawTemperature T) raw s"
  "out_kept (readTemperatureC T) out s"
  "out_kept (readTemperatureF T) out s"
  "out_kept (getHighLimit T) out s"
  "out_kept (getLowLimit T) out s"
  "out_kept (getOffset T) out s"
  by (simp_all add: out_kept_def readRawTemperature_def readTemperatureC_def
      readTemperatureF_def getHighLimit_def getLowLimit_def getOffset_def split: prod.splits)

lemma direct_reads_out_kept:
  "out_kept (readConfig T) out s"
  "out_kept (getDeviceID T) out s"
  "out_kept (readEEPROM T reg) out s"
  using readReg_out_kept [of T REG_CONFIG out s] readReg_out_kept [of T REG_DEVICE_ID out s]
    readReg_out_kept [of T reg out s]
  by (simp_all add: out_kept_def readConfig_def getDeviceID_def readEEPROM_def)

text \<open>
  C8. Each of the fourteen operations that return a value through a reference leaves the
  referenced variable as it was whenever it reports failure.
\<close>

theorem C8_output_kept_on_failure:
  "out_kept (readRawTemperature T) raw s \<and>
   out_kept (readTemperatureC T) tc s \<and>
   out_kept (readTemperatureF T) tf s \<and>
   out_kept (readConfig T) config s \<and>
   out_kept (getConversionRate T) rate s \<and>
   out_kept (getAveraging T) avg s \<and>
   out_kept (getMode T) mode s \<and>
   out_kept (getHighLimit T) hi s \<and>
   out_kept (getLowLimit T) lo s \<and>
   out_kept (getOffset T) off s \<and>
   out_kept (getThermAlertMode T) tm s \<and>
   out_kept (getAlertPolarity T) pol s \<and>
   out_kept (readEEPROM T reg) ee s \<and>
   out_kept (getDeviceID T) ident s"
  by (simp add: config_getters_out_kept temperature_getters_out_kept direct_reads_out_kept)

lemma run_readTemperatureC_nack:
  "readTemperatureC sim (- 40) (ready0 [2]) = (ok, v, s') \<Longrightarrow> \<not> ok"
  by (auto simp add: readTemperatureC_def readRawTemperature_def readReg_eq Let_def sim_defs
      reg_defs uninit16_def split: prod.splits)

theorem C8_output_kept_on_failure_witness:
  "\<not> fst (readTemperatureC sim (- 40) (ready0 [2])) \<and>
   fst (snd (readTemperatureC sim (- 40) (ready0 [2]))) = - 40"
proof -
  have f: "\<not> fst (readTemperatureC sim (- 40) (ready0 [2]))"
    using run_readTemperatureC_nack
    by (cases "readTemperatureC sim (- 40) (ready0 [2])") auto
  from C8_output_kept_on_failure [of sim _ "ready0 [2]" "- 40"]
  have "out_kept (readTemperatureC sim) (- 40) (ready0 [2])" by blast
  with f show ?thesis by (simp add: out_kept_def)
qed

section \<open>Byte order\<close>

lemma be16_bytes: "be16 (ucast (drop_bit 8 v)) (ucast (v AND 0xFF)) = v"
proof -
  have m: "(0xFF :: u16) = mask 8" by (simp add: mask_eq_exp_minus_1)
  show ?thesis
    unfolding be16_def m
    by (rule bit_word_eqI) (auto simp add: bit_simps)
qed

lemma be16_bytes_ucast: "be16 (ucast (drop_bit 8 v)) (ucast v) = v"
  unfolding be16_def by (rule bit_word_eqI) (auto simp add: bit_simps)

lemma faithful_write_read:
  assumes "dev_addr (line (this_wire z)) = address z"
    and "tx_faults (line (this_wire z)) = []"
  shows "fst (writeReg sim reg v z) \<and>
    fst (readReg sim reg v0 (snd (writeReg sim reg v z))) \<and>
    fst (snd (readReg sim reg v0 (snd (writeReg sim reg v z)))) = v"
proof -
  from assms show ?thesis
    by (simp add: writeReg_eq readReg_eq Let_def sim_def sim_send_def sim_recv_def this_wire_def
        be16_bytes be16_bytes_ucast)
qed

text \<open>
  C9. \<open>writeReg\<close> sends the register number, then the high byte of the value, then its low
  byte, in one transmission; \<open>readReg\<close> combines the two bytes it receives as first byte
  times 256 plus second byte. On the simulated peripheral with no failure scheduled, which
  stores what it is sent and returns what it stores, a register read after a write of \<open>v\<close>
  returns \<open>v\<close>.
\<close>

theorem C9_big_endian_roundtrip:
  "(\<exists>st. new_events s (snd (writeReg T reg v s)) =
           [Tx (i2c s) (address s) [reg, ucast (drop_bit 8 v), ucast (v AND 0xFF)] True st]) \<and>
   be16 (ucast (drop_bit 8 v)) (ucast (v AND 0xFF)) = v \<and>
   (fst (readReg T reg v0 s) \<longrightarrow>
      (\<exists>b1 b2. new_events s (snd (snd (readReg T reg v0 s))) =
                 [Tx (i2c s) (address s) [reg] False 0, Rx (i2c s) (address s) 2 [b1, b2]] \<and>
               fst (snd (readReg T reg v0 s)) = push_bit 8 (ucast b1) OR ucast b2)) \<and>
   (dev_addr (line (this_wire z)) = address z \<and> tx_faults (line (this_wire z)) = [] \<longrightarrow>
      fst (writeReg sim reg v z) \<and>
      fst (readReg sim reg v0 (snd (writeReg sim reg v z))) \<and>
      fst (snd (readReg sim reg v0 (snd (writeReg sim reg v z)))) = v)"
proof (intro conjI impI)
  obtain ok s' where w: "writeReg T reg v s = (ok, s')"
    by (cases "writeReg T reg v s")
  from writeReg_cases [OF w]
  show "\<exists>st. new_events s (snd (writeReg T reg v s)) =
           [Tx (i2c s) (address s) [reg, ucast (drop_bit 8 v), ucast (v AND 0xFF)] True st]"
    unfolding w by (auto simp add: new_events_def)
next
  show "be16 (ucast (drop_bit 8 v)) (ucast (v AND 0xFF)) = v" by (rule be16_bytes)
next
  assume a: "fst (readReg T reg v0 s)"
  obtain ok x s' where r: "readReg T reg v0 s = (ok, x, s')"
    by (cases "readReg T reg v0 s")
  from readReg_cases [OF r] a
  show "\<exists>b1 b2. new_events s (snd (snd (readReg T reg v0 s))) =
                 [Tx (i2c s) (address s) [reg] False 0, Rx (i2c s) (address s) 2 [b1, b2]] \<and>
               fst (snd (readReg T reg v0 s)) = push_bit 8 (ucast b1) OR ucast b2"
    unfolding r by (auto simp add: new_events_def be16_def)
next
  assume "dev_addr (line (this_wire z)) = address z \<and> tx_faults (line (this_wire z)) = []"
  then have f: "fst (writeReg sim reg v z) \<and>
      fst (readReg sim reg v0 (snd (writeReg sim reg v z))) \<and>
      fst (snd (readReg sim reg v0 (snd (writeReg sim reg v z)))) = v"
    by (intro faithful_write_read) simp_all
  from f show "fst (writeReg sim reg v z)" by blast
  from f show "fst (readReg sim reg v0 (snd (writeReg sim reg v z)))" by blast
  from f show "fst (snd (readReg sim reg v0 (snd (writeReg sim reg v z)))) = v" by blast
qed

lemma run_write_read:
  "writeReg sim 0x02 0xABCD (ready0 []) = (ok, s1) \<Longrightarrow> readReg sim 0x02 0 s1 = (ok', x, s2) \<Longrightarrow>
     ok \<and> ok' \<and> x = 0xABCD \<and>
     trace s2 = [Tx 0 0x48 [0x02, 0xAB, 0xCD] True 0, Tx 0 0x48 [0x02] False 0,
                 Rx 0 0x48 2 [0xAB, 0xCD]]"
  by (auto simp add: writeReg_eq readReg_eq Let_def sim_defs)

theorem C9_big_endian_roundtrip_witness:
  "dev_addr (line (this_wire (ready0 []))) = address (ready0 []) \<and>
   tx_faults (line (this_wire (ready0 []))) = [] \<and>
   fst (writeReg sim 0x02 0xABCD (ready0 [])) \<and>
   fst (readReg sim 0x02 0 (snd (writeReg sim 0x02 0xABCD (ready0 [])))) \<and>
   fst (snd (readReg sim 0x02 0 (snd (writeReg sim 0x02 0xABCD (ready0 []))))) = 0xABCD \<and>
   trace (snd (snd (readReg sim 0x02 0 (snd (writeReg sim 0x02 0xABCD (ready0 [])))))) =
     [Tx 0 0x48 [0x02, 0xAB, 0xCD] True 0, Tx 0 0x48 [0x02] False 0, Rx 0 0x48 2 [0xAB, 0xCD]]"
proof -
  have h: "dev_addr (line (this_wire (ready0 []))) = address (ready0 []) \<and>
      tx_faults (line (this_wire (ready0 []))) = []"
    by (simp add: this_wire_def sim_defs)
  have t: "trace (snd (snd (readReg sim 0x02 0 (snd (writeReg sim 0x02 0xABCD (ready0 [])))))) =
     [Tx 0 0x48 [0x02, 0xAB, 0xCD] True 0, Tx 0 0x48 [0x02] False 0, Rx 0 0x48 2 [0xAB, 0xCD]]"
    using run_write_read [OF surjective_pairing triple_collapse]
    by simp
  from C9_big_endian_roundtrip [where reg = "0x02" and v = "0xABCD" and ?v0.0 = 0 and z = "ready0 []"]
    h t
  show ?thesis by blast
qed

section \<open>The binding is an invariant\<close>

lemma bound_step_unlockEEPROM: "unlockEEPROM T s = (ok, s') \<Longrightarrow> bound_step s s'"
  by (auto simp add: unlockEEPROM_def Let_def split: prod.splits if_splits
      intro: bound_step_writeReg bound_step_trans [OF bound_step_writeReg bound_step_delay])

lemma bound_step_lockEEPROM: "lockEEPROM T s = (ok, s') \<Longrightarrow> bound_step s s'"
  by (auto simp add: lockEEPROM_def Let_def split: prod.splits if_splits
      intro: bound_step_writeReg bound_step_trans [OF bound_step_writeReg bound_step_delay])

lemma bound_step_writeEEPROM: "writeEEPROM T reg v s = (ok, s') \<Longrightarrow> bound_step s s'"
proof (cases "reg \<noteq> REG_EEPROM1 \<and> reg \<noteq> REG_EEPROM2 \<and> reg \<noteq> REG_EEPROM3")
  case True
  assume "writeEEPROM T reg v s = (ok, s')"
  with True show ?thesis by (simp add: writeEEPROM_def bound_step_refl)
next
  case False
  assume a: "writeEEPROM T reg v s = (ok, s')"
  obtain ok1 s1 where u: "unlockEEPROM T s = (ok1, s1)" by (cases "unlockEEPROM T s")
  obtain ok2 s2 where w: "writeReg T reg v s1 = (ok2, s2)" by (cases "writeReg T reg v s1")
  obtain ok3 s3 where l: "lockEEPROM T (delay 10 s2) = (ok3, s3)"
    by (cases "lockEEPROM T (delay 10 s2)")
  have 1: "bound_step s s1" using u by (rule bound_step_unlockEEPROM)
  have 2: "bound_step s s2" using 1 bound_step_writeReg [OF w] by (rule bound_step_trans)
  have 3: "bound_step s s3"
    using 2 bound_step_trans [OF bound_step_delay bound_step_lockEEPROM [OF l]]
    by (rule bound_step_trans)
  from a False u w l have "s' = s1 \<or> s' = s2 \<or> s' = s3"
    by (auto simp add: writeEEPROM_def Let_def split: if_splits)
  with 1 2 3 show ?thesis by blast
qed

lemma bound_step_call_setter: "call_setter T c s = (ok, s') \<Longrightarrow> bound_step s s'"
  by (auto simp add: call_setter_eq Let_def split: prod.splits if_splits
      intro: bound_step_readReg bound_step_trans [OF bound_step_readReg bound_step_writeReg])

lemma bound_step_limit_setters:
  "setHighLimit T oor t s = (r, s') \<Longrightarrow> bound_step s s'"
  "setLowLimit T oor t s = (r, s') \<Longrightarrow> bound_step s s'"
  "setOffset T oor t s = (r, s') \<Longrightarrow> bound_step s s'"
  by (auto simp add: setHighLimit_def setLowLimit_def setOffset_def intro: bound_step_writeReg)

text \<open>Each of the three temperature setters transmits exactly once, in range or not.\<close>

lemma limit_setters_transmit:
  "\<exists>st. new_events s (snd (setHighLimit T oor t s)) =
     [Tx (i2c s) (address s)
        [REG_T_HIGH, ucast (drop_bit 8 (celsiusToRaw_built oor t)),
         ucast (celsiusToRaw_built oor t AND 0xFF)] True st]"
  "\<exists>st. new_events s (snd (setLowLimit T oor t s)) =
     [Tx (i2c s) (address s)
        [REG_T_LOW, ucast (drop_bit 8 (celsiusToRaw_built oor t)),
         ucast (celsiusToRaw_built oor t AND 0xFF)] True st]"
  "\<exists>st. new_events s (snd (setOffset T oor t s)) =
     [Tx (i2c s) (address s)
        [REG_TEMP_OFFSET, ucast (drop_bit 8 (celsiusToRaw_built oor t)),
         ucast (celsiusToRaw_built oor t AND 0xFF)] True st]"
  using writeReg_cases [OF surjective_pairing, of T REG_T_HIGH "celsiusToRaw_built oor t" s]
    writeReg_cases [OF surjective_pairing, of T REG_T_LOW "celsiusToRaw_built oor t" s]
    writeReg_cases [OF surjective_pairing, of T REG_TEMP_OFFSET "celsiusToRaw_built oor t" s]
  by (auto simp add: setHighLimit_def setLowLimit_def setOffset_def new_events_def)

lemma bound_step_getters:
  "readRawTemperature T raw s = (ok, raw', s') \<Longrightarrow> bound_step s s'"
  "readTemperatureC T t s = (ok, t', s') \<Longrightarrow> bound_step s s'"
  "readTemperatureF T t s = (ok, t', s') \<Longrightarrow> bound_step s s'"
  "getHighLimit T t s = (ok, t', s') \<Longrightarrow> bound_step s s'"
  "getLowLimit T t s = (ok, t', s') \<Longrightarrow> bound_step s s'"
  "getOffset T t s = (ok, t', s') \<Longrightarrow> bound_step s s'"
  "getConversionRate T b s = (ok, b', s') \<Longrightarrow> bound_step s s'"
  "getAveraging T b s = (ok, b', s') \<Longrightarrow> bound_step s s'"
  "getMode T b s = (ok, b', s') \<Longrightarrow> bound_step s s'"
  "getThermAlertMode T b s = (ok, b', s') \<Longrightarrow> bound_step s s'"
  "getAlertPolarity T b s = (ok, b', s') \<Longrightarrow> bound_step s s'"
  by (auto simp add: readRawTemperature_def readTemperatureC_def readTemperatureF_def
      getHighLimit_def getLowLimit_def getOffset_def getConversionRate_def getAveraging_def
      getMode_def getThermAlertMode_def getAlertPolarity_def readConfig_def Let_def
      split: prod.splits if_splits intro: bound_step_readReg)

lemma bound_step_readEEPROM: "readEEPROM T reg v s = (ok, v', s') \<Longrightarrow> bound_step s s'"
  by (auto simp add: readEEPROM_def bound_step_refl split: if_splits intro: bound_step_readReg)

lemma bound_step_exec: "bound_step s (exec T oor x s)"
proof (cases x)
  case (SetConversionRate c)
  then show ?thesis
    using bound_step_call_setter [OF surjective_pairing, where T = T and c = "ConversionRate c" and s = s] by simp
next
  case (SetAveraging a)
  then show ?thesis
    using bound_step_call_setter [OF surjective_pairing, where T = T and c = "Averaging a" and s = s] by simp
next
  case (SetMode m)
  then show ?thesis
    using bound_step_call_setter [OF surjective_pairing, where T = T and c = "Mode m" and s = s] by simp
next
  case (SetThermAlertMode m)
  then show ?thesis
    using bound_step_call_setter [OF surjective_pairing, where T = T and c = "ThermAlertMode m" and s = s] by simp
next
  case (SetAlertPolarity p)
  then show ?thesis
    using bound_step_call_setter [OF surjective_pairing, where T = T and c = "AlertPolarity p" and s = s] by simp
next
  case (WriteEEPROM reg v)
  then show ?thesis using bound_step_writeEEPROM [OF surjective_pairing, where T = T and reg = reg and v = v and s = s] by simp
next
  case (ReadEEPROM reg)
  then show ?thesis using bound_step_readEEPROM [OF triple_collapse, where T = T and reg = reg and v = uninit16 and s = s] by simp
qed (auto simp add: readConfig_def writeConfig_def reset_def getDeviceID_def
    intro: bound_step_getters [OF triple_collapse] bound_step_limit_setters [OF surjective_pairing]
      bound_step_readReg [OF triple_collapse] bound_step_writeReg [OF surjective_pairing])

lemma bound_step_exec_all: "bound_step s (exec_all T oor ops s)"
proof (induction ops arbitrary: s)
  case Nil
  show ?case by (simp add: exec_all_def bound_step_refl)
next
  case (Cons x xs)
  have "exec_all T oor (x # xs) s = exec_all T oor xs (exec T oor x s)"
    by (simp add: exec_all_def)
  with bound_step_exec [of s T oor x] Cons [of "exec T oor x s"] show ?case
    by (metis bound_step_trans)
qed

lemma bound_step_begin:
  assumes "tmp_begin T esp a sda scl clk s = (ok, s')"
  shows "bound_step (s\<lparr>address := a\<rparr>) s'"
proof -
  define s2 where "s2 = i2c_setClock clk
    (if esp then (if sda \<noteq> 0xFF \<and> scl \<noteq> 0xFF then i2c_begin_pins sda scl (s\<lparr>address := a\<rparr>)
                  else i2c_begin (s\<lparr>address := a\<rparr>))
     else i2c_begin (s\<lparr>address := a\<rparr>))"
  have p: "bound_step (s\<lparr>address := a\<rparr>) s2"
    by (simp add: bound_step_iff s2_def i2c_setClock_def i2c_begin_def i2c_begin_pins_def
        wire_upd_def)
  obtain rok ident s3 where r: "readReg T REG_DEVICE_ID uninit16 s2 = (rok, ident, s3)"
    by (cases "readReg T REG_DEVICE_ID uninit16 s2")
  from assms r have "s' = s3"
    by (auto simp add: tmp_begin_def getDeviceID_def Let_def s2_def split: if_splits)
  with p bound_step_readReg [OF r] show ?thesis by (metis bound_step_trans)
qed

text \<open>
  C10. No operation other than \<open>tmp_begin\<close> changes the bus pointer or the address of the
  driver object (nor any other bus object), and every bus event of an operation is on
  that bus at that address; this includes the three temperature setters, which transmit
  whatever the conversion of their argument yields. Hence after \<open>tmp_begin\<close> with address
  \<open>a\<close>, and after any sequence of further operations, the members are the pointer as it was
  and \<open>a\<close>, and every bus event since the call of \<open>tmp_begin\<close> is on that bus at address \<open>a\<close>.
\<close>

theorem C10_binding_invariant:
  assumes "tmp_begin T esp a sda scl clk s = (ok, s1)"
  shows "bound_step z (exec T oor x z) \<and>
    i2c s1 = i2c s \<and> address s1 = a \<and>
    i2c (exec_all T oor ops s1) = i2c s \<and> address (exec_all T oor ops s1) = a \<and>
    (\<forall>p. p \<noteq> i2c s \<longrightarrow> wires (exec_all T oor ops s1) p = wires s p) \<and>
    list_all (addressed (i2c s) a) (new_events s (exec_all T oor ops s1))"
proof -
  have 1: "bound_step (s\<lparr>address := a\<rparr>) s1" using assms by (rule bound_step_begin)
  have 2: "bound_step (s\<lparr>address := a\<rparr>) (exec_all T oor ops s1)"
    using 1 bound_step_exec_all by (rule bound_step_trans)
  have n: "new_events (s\<lparr>address := a\<rparr>) s' = new_events s s'" for s' :: "'a sys"
    by (simp add: new_events_def)
  from 1 have "i2c s1 = i2c s" "address s1 = a" by (simp_all add: bound_step_def)
  moreover from 2 have "i2c (exec_all T oor ops s1) = i2c s"
    "address (exec_all T oor ops s1) = a"
    "\<forall>p. p \<noteq> i2c s \<longrightarrow> wires (exec_all T oor ops s1) p = wires s p"
    "list_all (addressed (i2c s) a) (new_events s (exec_all T oor ops s1))"
    by (simp_all add: bound_step_def n)
  moreover have "bound_step z (exec T oor x z)" by (rule bound_step_exec)
  ultimately show ?thesis by blast
qed

text \<open>A run with a temperature beyond the range of the register: 300 degrees is the code
  38400, which is not an \<^verbatim>\<open>int16_t\<close>; with \<open>conv_wrap\<close> the bytes sent are 0x96 and 0x00.\<close>

lemma celsiusToRaw_300: "celsiusToRaw 300 = None" "conv_wrap 300 = 0x9600"
  by code_simp+

lemma celsiusToRaw_built_300: "celsiusToRaw_built conv_wrap 300 = 0x9600"
  by (simp add: celsiusToRaw_built_def celsiusToRaw_300)

lemma run_session:
  "trace (exec_all sim conv_wrap [SetMode SHUTDOWN, SetHighLimit 300, GetDeviceID]
      (snd (tmp_begin sim False 0x48 0xFF 0xFF 400000 (sys0 [])))) =
       [Tx 0 0x48 [0x0F] False 0, Rx 0 0x48 2 [0x01, 0x17],
        Tx 0 0x48 [0x01] False 0, Rx 0 0x48 2 [0x02, 0x20], Tx 0 0x48 [0x01, 0x06, 0x20] True 0,
        Tx 0 0x48 [0x02, 0x96, 0x00] True 0,
        Tx 0 0x48 [0x0F] False 0, Rx 0 0x48 2 [0x01, 0x17]]"
  by (simp add: tmp_begin_def getDeviceID_def readReg_eq writeReg_eq i2c_begin_def
      i2c_setClock_def wire_upd_def Let_def sim_defs reg_defs uninit16_def exec_all_def
      setMode_def readConfig_def writeConfig_def setMode_bits_def setHighLimit_def
      celsiusToRaw_built_300)

theorem C10_binding_invariant_witness:
  "i2c (exec_all sim conv_wrap [SetMode SHUTDOWN, SetHighLimit 300, GetDeviceID]
         (snd (tmp_begin sim False 0x48 0xFF 0xFF 400000 (sys0 [])))) = 0 \<and>
   address (exec_all sim conv_wrap [SetMode SHUTDOWN, SetHighLimit 300, GetDeviceID]
         (snd (tmp_begin sim False 0x48 0xFF 0xFF 400000 (sys0 [])))) = 0x48 \<and>
   new_events (sys0 []) (exec_all sim conv_wrap [SetMode SHUTDOWN, SetHighLimit 300, GetDeviceID]
         (snd (tmp_begin sim False 0x48 0xFF 0xFF 400000 (sys0 [])))) =
       [Tx 0 0x48 [0x0F] False 0, Rx 0 0x48 2 [0x01, 0x17],
        Tx 0 0x48 [0x01] False 0, Rx 0 0x48 2 [0x02, 0x20], Tx 0 0x48 [0x01, 0x06, 0x20] True 0,
        Tx 0 0x48 [0x02, 0x96, 0x00] True 0,
        Tx 0 0x48 [0x0F] False 0, Rx 0 0x48 2 [0x01, 0x17]]"
proof -
  let ?s2 = "exec_all sim conv_wrap [SetMode SHUTDOWN, SetHighLimit 300, GetDeviceID]
         (snd (tmp_begin sim False 0x48 0xFF 0xFF 400000 (sys0 [])))"
  have z: "i2c (sys0 []) = 0" "trace (sys0 []) = []" by (simp_all add: sys0_def)
  from C10_binding_invariant [OF surjective_pairing, where T = sim and esp = False
      and a = "0x48" and sda = "0xFF" and scl = "0xFF" and clk = 400000 and s = "sys0 []"
      and oor = conv_wrap and ops = "[SetMode SHUTDOWN, SetHighLimit 300, GetDeviceID]"]
  have "i2c ?s2 = i2c (sys0 [])" and "address ?s2 = 0x48" by blast+
  moreover have "new_events (sys0 []) ?s2 = trace ?s2"
    by (simp add: new_events_def z)
  ultimately show ?thesis by (simp only: z run_session)
qed

end
